theory Spec2Isabelle
  imports Complex_Main "HOL-Library.Multiset"
begin

section \<open>JavaScript runtime pieces used by the services\<close>

text \<open>
  Numbers are IEEE doubles in the source. The arithmetic of the topic score is double
  arithmetic, each operation with its rounding (see below). The cosine similarity is
  read over the real numbers, with the non-number \<open>NaN\<close> explicit; its theorems are
  about the numbers 0 and 1 and about \<open>NaN\<close>, where the arithmetic is exact.

  \<open>Array.prototype.sort(cmp)\<close> is stable (ECMAScript 2019) and ranks \<open>a\<close> before
  \<open>b\<close> when \<open>cmp a b < 0\<close>. The result of a stable sort under a consistent comparator
  is unique, so the in-place sort is written as the stable insertion sort below. A
  comparator result of \<open>NaN\<close> counts as \<open>0\<close>, which the comparators of this file
  return themselves.
\<close>

fun js_insert :: "('a \<Rightarrow> 'a \<Rightarrow> int) \<Rightarrow> 'a \<Rightarrow> 'a list \<Rightarrow> 'a list" where
  "js_insert cmp x [] = [x]"
| "js_insert cmp x (y # ys) =
     (if cmp x y \<le> 0 then x # y # ys else y # js_insert cmp x ys)"

definition js_sort :: "('a \<Rightarrow> 'a \<Rightarrow> int) \<Rightarrow> 'a list \<Rightarrow> 'a list" where
  "js_sort cmp xs = foldr (js_insert cmp) xs []"

subsection \<open>Double arithmetic\<close>

text \<open>
  A number is a finite double, read as the real number it denotes, or it is not finite
  (an infinity or \<open>NaN\<close>). An arithmetic operation on doubles is the exact operation
  followed by the rounding of the result to a double; the rounding is the parameter
  \<open>fl\<close>, which gives \<open>NonFinite\<close> where the result overflows. An operation of the topic
  score on an operand that is not finite gives a number that is not finite again.
  \<open>fl_div_count\<close> divides by the length of an array.
\<close>

datatype 'a jsnumber = Finite 'a | NonFinite

definition fl_add ::
  "(real \<Rightarrow> real jsnumber) \<Rightarrow> real jsnumber \<Rightarrow> real jsnumber \<Rightarrow> real jsnumber" where
  "fl_add fl a b = (case (a, b) of (Finite x, Finite y) \<Rightarrow> fl (x + y) | _ \<Rightarrow> NonFinite)"

definition fl_mul ::
  "(real \<Rightarrow> real jsnumber) \<Rightarrow> real jsnumber \<Rightarrow> real jsnumber \<Rightarrow> real jsnumber" where
  "fl_mul fl a b = (case (a, b) of (Finite x, Finite y) \<Rightarrow> fl (x * y) | _ \<Rightarrow> NonFinite)"

definition fl_div_count ::
  "(real \<Rightarrow> real jsnumber) \<Rightarrow> real jsnumber \<Rightarrow> nat \<Rightarrow> real jsnumber" where
  "fl_div_count fl a n =
     (case a of Finite x \<Rightarrow> if n = 0 then NonFinite else fl (x / real n) | NonFinite \<Rightarrow> NonFinite)"

text \<open>
  \<open>Math.round\<close> gives the nearest integer, a half towards plus infinity, and leaves a
  number that is not finite as it is.
\<close>

definition Math_round :: "real jsnumber \<Rightarrow> int jsnumber" where
  "Math_round a = (case a of Finite x \<Rightarrow> Finite \<lfloor>x + 1 / 2\<rfloor> | NonFinite \<Rightarrow> NonFinite)"

text \<open>
  What the theorems on the range of the score use of the rounding of doubles: it is
  monotone, it leaves the integers up to \<open>2^53\<close> as they are, and it does not overflow
  below that bound. The rounding to nearest of IEEE 754 is such a rounding, and so is
  \<open>Finite\<close>, the arithmetic without rounding.
\<close>

definition doubleRounding :: "(real \<Rightarrow> real jsnumber) \<Rightarrow> bool" where
  "doubleRounding fl \<longleftrightarrow>
     (\<forall>x y a b. x \<le> y \<and> fl x = Finite a \<and> fl y = Finite b \<longrightarrow> a \<le> b)
     \<and> (\<forall>k::int. \<bar>k\<bar> \<le> 2 ^ 53 \<longrightarrow> fl (real_of_int k) = Finite (real_of_int k))
     \<and> (\<forall>x. \<bar>x\<bar> \<le> 2 ^ 53 \<longrightarrow> fl x \<noteq> NonFinite)"

subsection \<open>Strings\<close>

text \<open>
  A string is the list of its code units; the development covers the code units below
  256 (ASCII and Latin-1), which hold every character the code tests for.
  \<open>toLowerCase\<close> maps \<open>A\<close> to \<open>Z\<close> and the Latin-1 capitals to their small letters.
  \<open>isWordChar\<close> is the class \<open>\w\<close> and \<open>isSpace\<close> the class \<open>\s\<close> (tab to carriage
  return, space, no-break space).
\<close>

definition charCode :: "char \<Rightarrow> int" where
  "charCode c = of_char c"

definition isUpperAscii :: "char \<Rightarrow> bool" where
  "isUpperAscii c \<longleftrightarrow> 65 \<le> charCode c \<and> charCode c \<le> 90"

definition isUpperLatin1 :: "char \<Rightarrow> bool" where
  "isUpperLatin1 c \<longleftrightarrow> 192 \<le> charCode c \<and> charCode c \<le> 222 \<and> charCode c \<noteq> 215"

definition toLowerChar :: "char \<Rightarrow> char" where
  "toLowerChar c = (if isUpperAscii c \<or> isUpperLatin1 c then char_of (charCode c + 32) else c)"

definition toLowerCase :: "string \<Rightarrow> string" where
  "toLowerCase s = map toLowerChar s"

definition isDigit :: "char \<Rightarrow> bool" where
  "isDigit c \<longleftrightarrow> 48 \<le> charCode c \<and> charCode c \<le> 57"

definition isWordChar :: "char \<Rightarrow> bool" where
  "isWordChar c \<longleftrightarrow>
     isDigit c \<or> (65 \<le> charCode c \<and> charCode c \<le> 90)
     \<or> (97 \<le> charCode c \<and> charCode c \<le> 122) \<or> charCode c = 95"

definition isSpace :: "char \<Rightarrow> bool" where
  "isSpace c \<longleftrightarrow> (9 \<le> charCode c \<and> charCode c \<le> 13) \<or> charCode c = 32 \<or> charCode c = 160"

text \<open>
  \<open>s.split(/\s+/)\<close> cuts at every maximal run of white space. A run at the start or at
  the end leaves an empty first or last piece, and the empty string gives one empty piece.
\<close>

function (sequential) splitSpaces :: "string \<Rightarrow> string list" where
  "splitSpaces [] = [[]]"
| "splitSpaces (c # cs) =
     (if isSpace c then [] # splitSpaces (dropWhile isSpace cs)
      else (case splitSpaces cs of
              [] \<Rightarrow> [[c]]
            | piece # pieces \<Rightarrow> (c # piece) # pieces))"
  by pat_completeness auto
termination
  by (relation "measure length") (auto simp: le_imp_less_Suc length_dropWhile_le)

text \<open>\<open>String(n)\<close> for a non-negative integer: its decimal digits.\<close>

function showNat :: "nat \<Rightarrow> string" where
  "showNat n =
     (if n < 10 then [char_of (48 + n)] else showNat (n div 10) @ [char_of (48 + n mod 10)])"
  by pat_completeness auto
termination
  by (relation "measure id") auto

declare showNat.simps [simp del]

text \<open>
  \<open>s.match(new RegExp(word, 'g'))\<close> for a word without regular-expression operators:
  the matches are found left to right and do not overlap. \<open>skip\<close> is the number of
  characters still covered by the last match.
\<close>

fun countMatchesFrom :: "nat \<Rightarrow> string \<Rightarrow> string \<Rightarrow> nat" where
  "countMatchesFrom skip word [] = 0"
| "countMatchesFrom skip word (c # cs) =
     (if 0 < skip then countMatchesFrom (skip - 1) word cs
      else if take (length word) (c # cs) = word
        then 1 + countMatchesFrom (length word - 1) word cs
      else countMatchesFrom 0 word cs)"

definition countMatches :: "string \<Rightarrow> string \<Rightarrow> nat" where
  "countMatches word s = countMatchesFrom 0 word s"

subsection \<open>JSON values\<close>

text \<open>
  The values that \<open>JSON.parse\<close> returns; an object lists each of its keys once.
  \<open>truthy\<close> holds of the values that \<open>||\<close> keeps. \<open>getProp v k\<close> is \<open>v.k\<close> for a value
  that is neither \<open>null\<close> nor \<open>undefined\<close>, with \<open>None\<close> for \<open>undefined\<close>: the names the
  engine reads are inherited by no object, array, string, number or boolean.
  \<open>optChain x k\<close> is \<open>x?.k\<close> and \<open>orElse x d\<close> is \<open>x || d\<close>.
\<close>

datatype json =
    JNull
  | JBool bool
  | JNum real
  | JStr string
  | JArr "json list"
  | JObj "(string \<times> json) list"

fun truthy :: "json \<Rightarrow> bool" where
  "truthy JNull = False"
| "truthy (JBool b) = b"
| "truthy (JNum r) = (r \<noteq> 0)"
| "truthy (JStr s) = (s \<noteq> [])"
| "truthy (JArr xs) = True"
| "truthy (JObj kvs) = True"

fun getProp :: "json \<Rightarrow> string \<Rightarrow> json option" where
  "getProp (JObj kvs) k = map_of kvs k"
| "getProp v k = None"

fun optChain :: "json option \<Rightarrow> string \<Rightarrow> json option" where
  "optChain None k = None"
| "optChain (Some JNull) k = None"
| "optChain (Some v) k = getProp v k"

fun orElse :: "json option \<Rightarrow> json \<Rightarrow> json" where
  "orElse None d = d"
| "orElse (Some v) d = (if truthy v then v else d)"

subsection \<open>Properties of a plain object\<close>

text \<open>
  A plain object is the list of its own properties in the order of their creation.
  \<open>setProp\<close> is the assignment \<open>o[k] = v\<close> to an ordinary data property. \<open>Object.entries\<close>
  enumerates the keys that are array indices first (canonical decimal integers below
  \<open>2^32 - 1\<close>), in ascending numeric order, then the other keys in creation order.
\<close>

fun setProp :: "string \<Rightarrow> 'v \<Rightarrow> (string \<times> 'v) list \<Rightarrow> (string \<times> 'v) list" where
  "setProp k v [] = [(k, v)]"
| "setProp k v ((k', v') # kvs) =
     (if k' = k then (k, v) # kvs else (k', v') # setProp k v kvs)"

definition indexValue :: "string \<Rightarrow> int" where
  "indexValue s = foldl (\<lambda>n c. 10 * n + (charCode c - 48)) 0 s"

definition isArrayIndex :: "string \<Rightarrow> bool" where
  "isArrayIndex s \<longleftrightarrow>
     s \<noteq> [] \<and> list_all isDigit s \<and> (s = ''0'' \<or> hd s \<noteq> CHR ''0'')
     \<and> indexValue s < 4294967295"

definition Object_entries :: "(string \<times> 'v) list \<Rightarrow> (string \<times> 'v) list" where
  "Object_entries props =
     sort_key (\<lambda>(k, v). indexValue k) (filter (\<lambda>(k, v). isArrayIndex k) props)
     @ filter (\<lambda>(k, v). \<not> isArrayIndex k) props"

section \<open>models/Topic.ts\<close>

text \<open>A valid \<open>Date\<close> is its \<open>getTime()\<close> value, the milliseconds since the epoch.\<close>

record TopicTimelineEntry =
  entryDocumentId :: string
  date :: int
  content :: string
  relevanceScore :: real
  sentiment :: real
  keyQuotes :: "string list"

record TrendData =
  frequency :: nat
  sentimentTrend :: "real list"
  popularityScore :: "int jsnumber"

record Topic =
  userId :: string
  name :: string
  description :: "string option"
  topicKeywords :: "string list"
  documentIds :: "string list"
  timeline :: "TopicTimelineEntry list"
  trendData :: TrendData
  isActive :: bool

text \<open>
  The instance method \<open>addTimelineEntry\<close>: the receiver \<open>this\<close> is the argument after
  the rounding of the arithmetic, and the mutated topic is returned. \<open>reduce\<close> with the
  initial value \<open>0\<close> is a left fold. The length of the timeline and its double are
  integers, which \<open>Math.min\<close> compares exactly.
\<close>

definition addTimelineEntry ::
  "(real \<Rightarrow> real jsnumber) \<Rightarrow> Topic \<Rightarrow> TopicTimelineEntry \<Rightarrow> Topic" where
  "addTimelineEntry fl this entry =
     (let pushed = timeline this @ [entry];
          sorted_tl = js_sort (\<lambda>a b. date b - date a) pushed;
          recentEntries = take 5 sorted_tl;
          avgSentiment =
            fl_div_count fl
              (foldl (\<lambda>sum t. fl_add fl sum (Finite (sentiment t))) (Finite 0) recentEntries)
              (length recentEntries);
          activityScore = Finite (min (real (length sorted_tl) * 2) 50);
          sentimentScore = fl_mul fl (fl_add fl avgSentiment (Finite 1)) (Finite 25)
      in this\<lparr>timeline := sorted_tl,
              trendData :=
                \<lparr>frequency = length sorted_tl,
                 sentimentTrend = map sentiment (take 10 sorted_tl),
                 popularityScore = Math_round (fl_add fl activityScore sentimentScore)\<rparr>\<rparr>)"

text \<open>A run of calls on one topic, oldest call first.\<close>

definition addTimelineEntries ::
  "(real \<Rightarrow> real jsnumber) \<Rightarrow> Topic \<Rightarrow> TopicTimelineEntry list \<Rightarrow> Topic" where
  "addTimelineEntries fl this entries = foldl (addTimelineEntry fl) this entries"

definition sentiment_in_range :: "TopicTimelineEntry \<Rightarrow> bool" where
  "sentiment_in_range e \<longleftrightarrow> - 1 \<le> sentiment e \<and> sentiment e \<le> 1"

text \<open>A new topic with the defaults of the schema, and the entries of a test run.\<close>

definition newTopic :: "string \<Rightarrow> string \<Rightarrow> Topic" where
  "newTopic uid nm =
     \<lparr>userId = uid, name = nm, description = None, topicKeywords = [], documentIds = [],
      timeline = [],
      trendData = \<lparr>frequency = 0, sentimentTrend = [], popularityScore = Finite 0\<rparr>,
      isActive = True\<rparr>"

definition timelineEntry :: "int \<Rightarrow> real \<Rightarrow> TopicTimelineEntry" where
  "timelineEntry d s =
     \<lparr>entryDocumentId = ''doc'', date = d, content = ''text'', relevanceScore = 1,
      sentiment = s, keyQuotes = []\<rparr>"

definition sixEntries :: "TopicTimelineEntry list" where
  "sixEntries =
     [timelineEntry 1 1, timelineEntry 2 1, timelineEntry 3 1, timelineEntry 4 1,
      timelineEntry 5 1, timelineEntry 6 (- 1)]"

section \<open>services/aiService.ts\<close>

text \<open>
  The interface \<open>DocumentAnalysis\<close>. At run time the fields of an analysis hold what
  the provider sent, so they are JSON values here; the simulated analysis wraps its
  strings and numbers.
\<close>

record Summary =
  short :: json
  medium :: json
  detailed :: json

record SentimentResult =
  score :: json
  label :: json
  confidence :: json

record DocumentAnalysis =
  summary :: Summary
  analysisSentiment :: SentimentResult
  analysisKeywords :: "json list"
  topics :: "json list"
  entities :: "json list"
  readingTime :: nat
  complexity :: json
  language :: json

subsection \<open>generateSimulatedAnalysis\<close>

text \<open>
  The parts of the function in the order of the source: the word list, the frequency
  table \<open>wordFreq\<close>, the keywords, the sentiment, the result.

  \<open>wordFreq\<close> is an object literal, so it inherits \<open>constructor\<close> and \<open>__proto__\<close>.
  For the word \<open>constructor\<close> the expression \<open>(wordFreq[word] || 0) + 1\<close> finds the
  inherited function and makes a string, \<open>NonNumeric\<close> here; for \<open>__proto__\<close> the
  assignment of that string is ignored. The comparator \<open>b - a\<close> is \<open>NaN\<close> on a string;
  the order of a sort whose comparator is inconsistent is implementation-defined, and
  the theorems below make no statement about such a table.
\<close>

definition commonWords :: "string list" where
  "commonWords =
     [''the'', ''a'', ''an'', ''and'', ''or'', ''but'', ''in'', ''on'', ''at'', ''to'', ''for'',
      ''of'', ''with'', ''by'', ''is'', ''are'', ''was'', ''were'', ''be'', ''been'', ''have'',
      ''has'', ''had'', ''do'', ''does'', ''did'', ''will'', ''would'', ''could'', ''should'',
      ''may'', ''might'', ''can'', ''this'', ''that'', ''these'', ''those'']"

definition positiveWords :: "string list" where
  "positiveWords =
     [''good'', ''great'', ''excellent'', ''amazing'', ''wonderful'', ''positive'', ''success'',
      ''achieve'', ''benefit'', ''improve'']"

definition negativeWords :: "string list" where
  "negativeWords =
     [''bad'', ''terrible'', ''awful'', ''negative'', ''fail'', ''problem'', ''issue'',
      ''difficult'', ''challenge'', ''concern'']"

definition extractWords :: "string \<Rightarrow> string list" where
  "extractWords text =
     filter (\<lambda>word. 3 < length word \<and> word \<notin> set commonWords)
       (splitSpaces (filter (\<lambda>c. isWordChar c \<or> isSpace c) (toLowerCase text)))"

datatype freq = Count nat | NonNumeric

definition countWord :: "(string \<times> freq) list \<Rightarrow> string \<Rightarrow> (string \<times> freq) list" where
  "countWord wordFreq word =
     (case map_of wordFreq word of
        Some (Count n) \<Rightarrow> setProp word (Count (n + 1)) wordFreq
      | Some NonNumeric \<Rightarrow> setProp word NonNumeric wordFreq
      | None \<Rightarrow>
          if word = ''__proto__'' then wordFreq
          else if word = ''constructor'' then setProp word NonNumeric wordFreq
          else setProp word (Count 1) wordFreq)"

definition wordFrequencies :: "string list \<Rightarrow> (string \<times> freq) list" where
  "wordFrequencies words = foldl countWord [] words"

fun compareFreq :: "string \<times> freq \<Rightarrow> string \<times> freq \<Rightarrow> int" where
  "compareFreq (wa, Count a) (wb, Count b) = int b - int a"
| "compareFreq x y = 0"

definition extractKeywords :: "string \<Rightarrow> string list" where
  "extractKeywords text =
     map fst (take 8 (js_sort compareFreq (Object_entries (wordFrequencies (extractWords text)))))"

definition countAll :: "string list \<Rightarrow> string \<Rightarrow> nat" where
  "countAll wordList lowerText =
     foldl (\<lambda>count word. count + countMatches word lowerText) 0 wordList"

definition simulatedSentiment :: "string \<Rightarrow> real \<times> string" where
  "simulatedSentiment text =
     (let lowerText = toLowerCase text;
          positiveCount = countAll positiveWords lowerText;
          negativeCount = countAll negativeWords lowerText
      in if negativeCount < positiveCount
           then (min 0.8 (real positiveCount / real (positiveCount + negativeCount + 1)),
                 ''positive'')
         else if positiveCount < negativeCount
           then (- min 0.8 (real negativeCount / real (positiveCount + negativeCount + 1)),
                 ''negative'')
         else (0, ''neutral''))"

definition orDefaultName :: "string option \<Rightarrow> string \<Rightarrow> string" where
  "orDefaultName fileName d = (case fileName of None \<Rightarrow> d | Some n \<Rightarrow> if n = [] then d else n)"

definition generateSimulatedAnalysis :: "string \<Rightarrow> string option \<Rightarrow> DocumentAnalysis" where
  "generateSimulatedAnalysis text fileName =
     (let wordCount = length (splitSpaces text);
          readingTime = nat \<lceil>real wordCount / 200\<rceil>;
          keywords = extractKeywords text;
          (sentimentScore, sentimentLabel) = simulatedSentiment text
      in \<lparr>summary =
            \<lparr>short = JStr (''Analysis of '' @ orDefaultName fileName ''document''
                 @ '' containing '' @ showNat wordCount @ '' words.''),
             medium = JStr (''This document contains '' @ showNat wordCount
                 @ '' words and appears to be '' @ sentimentLabel
                 @ '' in tone. Key topics include analysis and content processing.''),
             detailed = JStr (''This document has been processed and analyzed. It contains ''
                 @ showNat wordCount @ '' words with an estimated reading time of ''
                 @ showNat readingTime @ '' minutes. The content appears to have a ''
                 @ sentimentLabel
                 @ '' sentiment with key themes related to the extracted keywords and topics.'')\<rparr>,
          analysisSentiment =
            \<lparr>score = JNum sentimentScore, label = JStr sentimentLabel, confidence = JNum 0.7\<rparr>,
          analysisKeywords = map JStr keywords,
          topics = map JStr (take 3 keywords),
          entities =
            [JObj [(''name'', JStr (orDefaultName fileName ''Document'')),
                   (''type'', JStr ''MISC''), (''confidence'', JNum 0.8)]],
          readingTime = readingTime,
          complexity = JStr (if 1000 < wordCount then ''complex''
                             else if 300 < wordCount then ''moderate'' else ''simple''),
          language = JStr ''en''\<rparr>)"


text \<open>
  The ranking as the specification words it, over the list of extracted words: the
  distinct words in the order of first occurrence, an enumeration order of the keys, and
  a stable ranking by descending count.
\<close>

definition firstOccurrences :: "string list \<Rightarrow> string list" where
  "firstOccurrences ws = rev (remdups (rev ws))"

definition enumerationOrder :: "string list \<Rightarrow> string list" where
  "enumerationOrder ks =
     sort_key indexValue (filter isArrayIndex ks) @ filter (\<lambda>k. \<not> isArrayIndex k) ks"

definition rankedByCount :: "string list \<Rightarrow> string list \<Rightarrow> string list" where
  "rankedByCount ws ks = sort_key (\<lambda>w. - int (count_list ws w)) ks"

text \<open>
  \<open>claimedKeywords\<close>: the distinct words in the order of their first occurrence,
  ranked by descending count, ties in that order; the first eight.
  \<open>enumeratedKeywords\<close>: the same, starting from the order in which the keys of
  the frequency table are enumerated.
\<close>

definition claimedKeywords :: "string \<Rightarrow> string list" where
  "claimedKeywords text =
     take 8 (rankedByCount (extractWords text) (firstOccurrences (extractWords text)))"

definition enumeratedKeywords :: "string \<Rightarrow> string list" where
  "enumeratedKeywords text =
     take 8 (rankedByCount (extractWords text)
               (enumerationOrder (firstOccurrences (extractWords text))))"

subsection \<open>The remote providers and the process environment\<close>

text \<open>
  What \<open>openai.chat.completions.create\<close> followed by \<open>JSON.parse\<close> can come to:
  the call rejects; the first choice has no content (\<open>undefined\<close>, \<open>null\<close> or the
  empty string); the content is not JSON; the content parses to a JSON value.
\<close>

datatype completion =
    CompletionRejected
  | NoContent
  | NotJson string
  | Parsed json

text \<open>
  What \<open>openai.embeddings.create\<close> can come to: the call rejects, or it resolves with
  the list \<open>response.data\<close>, each item with its \<open>embedding\<close> or without one.
\<close>

datatype embeddingResponse =
    EmbeddingRejected
  | EmbeddingData "real list option list"

text \<open>
  \<open>OPENAI_API_KEY\<close> is the environment variable; \<open>complete\<close> answers the prompt built
  from the document name and the content excerpt (the rest of the prompt is fixed text);
  \<open>embed\<close> answers the embedding request for an input; \<open>random\<close> is the sequence of
  values that successive calls of \<open>Math.random()\<close> return; \<open>now\<close> is the clock.
\<close>

record Env =
  OPENAI_API_KEY :: "string option"
  complete :: "string \<Rightarrow> string \<Rightarrow> completion"
  embed :: "string \<Rightarrow> embeddingResponse"
  random :: "nat \<Rightarrow> real"
  now :: int

definition apiKeyConfigured :: "Env \<Rightarrow> bool" where
  "apiKeyConfigured env \<longleftrightarrow>
     (case OPENAI_API_KEY env of
        None \<Rightarrow> False
      | Some k \<Rightarrow> k \<noteq> [] \<and> k \<noteq> ''your-openai-api-key-here'')"

subsection \<open>analyzeDocument\<close>

datatype analysisError =
    ProviderError
  | NoAnalysisReceived
  | InvalidJsonResponse
  | TypeError

text \<open>
  \<open>jsArraySlice v n\<close> is \<open>Array.isArray(v) ? v.slice(0, n) : []\<close>.
  \<open>validatedAnalysis\<close> is the object that the \<open>try\<close> block returns for a parsed
  answer; reading a property of \<open>null\<close> throws a \<open>TypeError\<close>.
\<close>

definition jsArraySlice :: "json option \<Rightarrow> nat \<Rightarrow> json list" where
  "jsArraySlice v n = (case v of Some (JArr xs) \<Rightarrow> take n xs | _ \<Rightarrow> [])"

definition validatedAnalysis :: "json \<Rightarrow> string \<Rightarrow> analysisError + DocumentAnalysis" where
  "validatedAnalysis analysis text =
     (if analysis = JNull then Inl TypeError
      else
        let wordCount = length (splitSpaces text);
            readingTime = nat \<lceil>real wordCount / 200\<rceil>
        in Inr
          \<lparr>summary =
             \<lparr>short = orElse (optChain (getProp analysis ''summary'') ''short'')
                        (JStr ''Summary not available''),
              medium = orElse (optChain (getProp analysis ''summary'') ''medium'')
                        (JStr ''Summary not available''),
              detailed = orElse (optChain (getProp analysis ''summary'') ''detailed'')
                        (JStr ''Summary not available'')\<rparr>,
           analysisSentiment =
             \<lparr>score = orElse (optChain (getProp analysis ''sentiment'') ''score'') (JNum 0),
              label = orElse (optChain (getProp analysis ''sentiment'') ''label'')
                        (JStr ''neutral''),
              confidence = orElse (optChain (getProp analysis ''sentiment'') ''confidence'')
                        (JNum 0.5)\<rparr>,
           analysisKeywords = jsArraySlice (getProp analysis ''keywords'') 10,
           topics = jsArraySlice (getProp analysis ''topics'') 5,
           entities = jsArraySlice (getProp analysis ''entities'') 10,
           readingTime = readingTime,
           complexity = orElse (getProp analysis ''complexity'') (JStr ''moderate''),
           language = orElse (getProp analysis ''language'') (JStr ''en'')\<rparr>)"

definition requestCompletion :: "Env \<Rightarrow> string \<Rightarrow> string option \<Rightarrow> completion" where
  "requestCompletion env text fileName =
     complete env (orDefaultName fileName ''Unknown'')
       (take 4000 text @ (if 4000 < length text then ''...'' else []))"

text \<open>
  The body of the \<open>try\<close> block after the check of the API key: every \<open>throw\<close> is
  an \<open>Inl\<close>.
\<close>

definition remoteAnalysis :: "Env \<Rightarrow> string \<Rightarrow> string option \<Rightarrow> analysisError + DocumentAnalysis" where
  "remoteAnalysis env text fileName =
     (case requestCompletion env text fileName of
        CompletionRejected \<Rightarrow> Inl ProviderError
      | NoContent \<Rightarrow> Inl NoAnalysisReceived
      | NotJson analysisText \<Rightarrow> Inl InvalidJsonResponse
      | Parsed analysis \<Rightarrow> validatedAnalysis analysis text)"

definition analyzeDocument :: "Env \<Rightarrow> string \<Rightarrow> string option \<Rightarrow> DocumentAnalysis" where
  "analyzeDocument env text fileName =
     (if \<not> apiKeyConfigured env then generateSimulatedAnalysis text fileName
      else case remoteAnalysis env text fileName of
             Inl error \<Rightarrow> generateSimulatedAnalysis text fileName
           | Inr analysis \<Rightarrow> analysis)"

text \<open>The data model of the sentiment of an analysis.\<close>

definition scoreInModel :: "json \<Rightarrow> bool" where
  "scoreInModel v = (case v of JNum x \<Rightarrow> - 1 \<le> x \<and> x \<le> 1 | _ \<Rightarrow> False)"

definition labelInModel :: "json \<Rightarrow> bool" where
  "labelInModel v \<longleftrightarrow> v = JStr ''positive'' \<or> v = JStr ''negative'' \<or> v = JStr ''neutral''"

definition confidenceInModel :: "json \<Rightarrow> bool" where
  "confidenceInModel v = (case v of JNum c \<Rightarrow> 0 \<le> c \<and> c \<le> 1 | _ \<Rightarrow> False)"

definition sentimentInModel :: "SentimentResult \<Rightarrow> bool" where
  "sentimentInModel s \<longleftrightarrow>
     scoreInModel (score s) \<and> labelInModel (label s) \<and> confidenceInModel (confidence s)"

text \<open>
  A field of the provider's answer is harmless when it is missing or falsy (the engine
  then takes its default) or lies in the data model itself.
\<close>

definition suppliedInModel :: "(json \<Rightarrow> bool) \<Rightarrow> json option \<Rightarrow> bool" where
  "suppliedInModel inModel field =
     (case field of None \<Rightarrow> True | Some v \<Rightarrow> \<not> truthy v \<or> inModel v)"

definition providerSentimentInModel :: "json \<Rightarrow> bool" where
  "providerSentimentInModel analysis \<longleftrightarrow>
     suppliedInModel scoreInModel (optChain (getProp analysis ''sentiment'') ''score'')
     \<and> suppliedInModel labelInModel (optChain (getProp analysis ''sentiment'') ''label'')
     \<and> suppliedInModel confidenceInModel
           (optChain (getProp analysis ''sentiment'') ''confidence'')"

subsection \<open>generateEmbeddings\<close>

text \<open>
  \<open>simulatedEmbeddings\<close> is \<open>Array.from({ length: 1536 }, () => Math.random() * 2 - 1)\<close>.
  The last cases of \<open>generateEmbeddings\<close> are \<open>response.data[0]?.embedding || []\<close>.
\<close>

definition simulatedEmbeddings :: "Env \<Rightarrow> real list" where
  "simulatedEmbeddings env = map (\<lambda>i. random env i * 2 - 1) [0..<1536]"

definition generateEmbeddings :: "Env \<Rightarrow> string \<Rightarrow> real list" where
  "generateEmbeddings env text =
     (if \<not> apiKeyConfigured env then simulatedEmbeddings env
      else case embed env (take 8000 text) of
             EmbeddingRejected \<Rightarrow> simulatedEmbeddings env
           | EmbeddingData [] \<Rightarrow> []
           | EmbeddingData (None # rest) \<Rightarrow> []
           | EmbeddingData (Some embedding # rest) \<Rightarrow> embedding)"

section \<open>The document model (the second module of models/User.ts)\<close>

datatype ProcessingStatus = Pending | Processing | Completed | Failed

record Metadata =
  metaComplexity :: json
  metaLanguage :: json
  processedAt :: int

text \<open>
  The fields of the document schema that the analysis pipeline reads or writes. The
  analysis fields hold the values the pipeline hands to the store. \<open>embeddings\<close> is
  \<open>None\<close> where the field is \<open>undefined\<close> (it is not selected by default).
\<close>

record Document =
  docUserId :: string
  title :: string
  originalFileName :: string
  extractedText :: string
  docSummary :: Summary
  docKeywords :: "json list"
  docEntities :: "json list"
  docSentiment :: SentimentResult
  wordCount :: nat
  docReadingTime :: nat
  docTopics :: "json list"
  embeddings :: "real list option"
  processingStatus :: ProcessingStatus
  processingError :: "string option"
  metadata :: "Metadata option"

subsection \<open>The pre-save middleware\<close>

text \<open>
  The two hooks in the order of their registration. \<open>modifiedPaths\<close> lists the paths
  for which \<open>isModified\<close> holds; a hook that calls \<open>next\<close> with an error is an \<open>Inl\<close>.
\<close>

datatype saveError = EmbeddingsDimensionError

definition readingTimeHook :: "string list \<Rightarrow> Document \<Rightarrow> Document" where
  "readingTimeHook modifiedPaths this =
     (if ''wordCount'' \<in> set modifiedPaths
      then this\<lparr>docReadingTime := nat \<lceil>real (wordCount this) / 225\<rceil>\<rparr>
      else this)"

definition embeddingsHook :: "Document \<Rightarrow> saveError + Document" where
  "embeddingsHook this =
     (case embeddings this of
        None \<Rightarrow> Inr this
      | Some e \<Rightarrow>
          if 0 < length e \<and> length e \<noteq> 1536 then Inl EmbeddingsDimensionError
          else Inr this)"

text \<open>
  The store is the collection of documents by id. \<open>save\<close> runs the pre-save middleware
  in the order of its registration and stores the document when no hook fails; the
  validators of the single fields of the schema are not part of the development.
  \<open>findByIdAndUpdate\<close> sets the given fields of the stored document and runs no save
  middleware; for an unknown id it changes nothing.
\<close>

type_synonym collection = "string \<rightharpoonup> Document"

definition save :: "collection \<Rightarrow> string \<Rightarrow> string list \<Rightarrow> Document \<Rightarrow> saveError + collection" where
  "save docs documentId modifiedPaths this =
     (case embeddingsHook (readingTimeHook modifiedPaths this) of
        Inl err \<Rightarrow> Inl err
      | Inr checked \<Rightarrow> Inr (docs(documentId \<mapsto> checked)))"

definition findByIdAndUpdate :: "collection \<Rightarrow> string \<Rightarrow> (Document \<Rightarrow> Document) \<Rightarrow> collection" where
  "findByIdAndUpdate docs documentId update =
     (case docs documentId of
        None \<Rightarrow> docs
      | Some doc \<Rightarrow> docs(documentId \<mapsto> update doc))"

subsection \<open>calculateSimilarity\<close>

text \<open>
  A number of the similarity computation is a real or \<open>NaN\<close>. Reading an array past
  its end gives \<open>undefined\<close>, which arithmetic turns into \<open>NaN\<close>. The one division is
  reached only with both norms different from zero, so an infinite quotient does not
  arise.
\<close>

datatype jsnum = Num real | NaN

fun js_add :: "jsnum \<Rightarrow> jsnum \<Rightarrow> jsnum" where
  "js_add (Num x) (Num y) = Num (x + y)"
| "js_add a b = NaN"

fun js_mul :: "jsnum \<Rightarrow> jsnum \<Rightarrow> jsnum" where
  "js_mul (Num x) (Num y) = Num (x * y)"
| "js_mul a b = NaN"

fun js_sqrt :: "jsnum \<Rightarrow> jsnum" where
  "js_sqrt (Num x) = (if x < 0 then NaN else Num (sqrt x))"
| "js_sqrt NaN = NaN"

fun js_div :: "jsnum \<Rightarrow> jsnum \<Rightarrow> jsnum" where
  "js_div (Num x) (Num y) = (if y = 0 then NaN else Num (x / y))"
| "js_div a b = NaN"

definition element :: "real list \<Rightarrow> nat \<Rightarrow> jsnum" where
  "element xs i = (if i < length xs then Num (xs ! i) else NaN)"

definition similaritySums :: "real list \<Rightarrow> real list \<Rightarrow> jsnum \<times> jsnum \<times> jsnum" where
  "similaritySums a b =
     foldl (\<lambda>(dotProduct, normA, normB) i.
              (js_add dotProduct (js_mul (element a i) (element b i)),
               js_add normA (js_mul (element a i) (element a i)),
               js_add normB (js_mul (element b i) (element b i))))
       (Num 0, Num 0, Num 0) [0..<length a]"

definition calculateSimilarity :: "Document \<Rightarrow> Document \<Rightarrow> jsnum" where
  "calculateSimilarity this otherDocument =
     (case (embeddings this, embeddings otherDocument) of
        (Some a, Some b) \<Rightarrow>
          (case similaritySums a b of
             (dotProduct, normA, normB) \<Rightarrow>
               if normA = Num 0 \<or> normB = Num 0 then Num 0
               else js_div dotProduct (js_mul (js_sqrt normA) (js_sqrt normB)))
      | _ \<Rightarrow> Num 0)"

text \<open>The invariant of the loop: both norms are sums of squares, or \<open>NaN\<close>.\<close>

definition normsOk :: "jsnum \<times> jsnum \<times> jsnum \<Rightarrow> bool" where
  "normsOk s = (case s of (dotProduct, normA, normB) \<Rightarrow>
     (\<exists>x. normA = Num x \<and> 0 \<le> x) \<and> (normB = NaN \<or> (\<exists>y. normB = Num y \<and> 0 \<le> y)))"

section \<open>routes/documents.ts\<close>

text \<open>
  The effects of the background task: the store and, in \<open>trace\<close>, the calls it makes
  in their order (status writes, analysis runs, embedding runs).
\<close>

datatype event =
    StatusUpdate string ProcessingStatus
  | AnalysisRun string
  | EmbeddingsRun string

record World =
  documents :: collection
  trace :: "event list"

datatype outcome = Resolved | Rejected

text \<open>\<open>storeOk s\<close>: the store accepts the write of status \<open>s\<close> of this run.\<close>

definition markProcessing :: "World \<Rightarrow> string \<Rightarrow> World" where
  "markProcessing w documentId =
     w\<lparr>documents :=
         findByIdAndUpdate (documents w) documentId (\<lambda>d. d\<lparr>processingStatus := Processing\<rparr>),
       trace := trace w @ [StatusUpdate documentId Processing]\<rparr>"

definition markFailed :: "(ProcessingStatus \<Rightarrow> bool) \<Rightarrow> World \<Rightarrow> string \<Rightarrow> outcome \<times> World" where
  "markFailed storeOk w documentId =
     (if storeOk Failed
      then (Resolved,
            w\<lparr>documents :=
                findByIdAndUpdate (documents w) documentId (\<lambda>d. d\<lparr>processingStatus := Failed\<rparr>),
              trace := trace w @ [StatusUpdate documentId Failed]\<rparr>)
      else (Rejected, w))"

definition storeAnalysis :: "Env \<Rightarrow> World \<Rightarrow> string \<Rightarrow> DocumentAnalysis \<Rightarrow> real list \<Rightarrow> World" where
  "storeAnalysis env w documentId analysis vector =
     w\<lparr>documents :=
         findByIdAndUpdate (documents w) documentId
           (\<lambda>d. d\<lparr>processingStatus := Completed,
                   docSummary := summary analysis,
                   docSentiment := analysisSentiment analysis,
                   docKeywords := analysisKeywords analysis,
                   docTopics := topics analysis,
                   docEntities := entities analysis,
                   embeddings := Some vector,
                   docReadingTime := readingTime analysis,
                   metadata :=
                     Some \<lparr>metaComplexity = complexity analysis,
                           metaLanguage = language analysis,
                           processedAt = now env\<rparr>\<rparr>),
       trace := trace w @ [StatusUpdate documentId Completed]\<rparr>"

definition processDocumentAI ::
  "Env \<Rightarrow> (ProcessingStatus \<Rightarrow> bool) \<Rightarrow> World \<Rightarrow> string \<Rightarrow> string \<Rightarrow> string \<Rightarrow> outcome \<times> World" where
  "processDocumentAI env storeOk w documentId text fileName =
     (if \<not> storeOk Processing then markFailed storeOk w documentId
      else
        let w1 = markProcessing w documentId;
            analysis = analyzeDocument env text (Some fileName);
            w2 = w1\<lparr>trace := trace w1 @ [AnalysisRun text]\<rparr>;
            vector = generateEmbeddings env text;
            w3 = w2\<lparr>trace := trace w2 @ [EmbeddingsRun text]\<rparr>
        in if \<not> storeOk Completed then markFailed storeOk w3 documentId
           else (Resolved, storeAnalysis env w3 documentId analysis vector))"

text \<open>
  The document that the upload route creates for a request without a title, with the
  defaults of the schema.
\<close>

definition uploadedDocument :: "string \<Rightarrow> string \<Rightarrow> string \<Rightarrow> Document" where
  "uploadedDocument uid fileName text =
     \<lparr>docUserId = uid, title = fileName, originalFileName = fileName, extractedText = text,
      docSummary = \<lparr>short = JStr [], medium = JStr [], detailed = JStr []\<rparr>,
      docKeywords = [], docEntities = [],
      docSentiment = \<lparr>score = JNum 0, label = JStr ''neutral'', confidence = JNum 0\<rparr>,
      wordCount = length (splitSpaces text), docReadingTime = 0, docTopics = [],
      embeddings = Some [], processingStatus = Pending, processingError = None,
      metadata = None\<rparr>"


text \<open>Two environments for test runs: with an API key and without.\<close>

definition configuredEnv :: "completion \<Rightarrow> embeddingResponse \<Rightarrow> Env" where
  "configuredEnv answer vectors =
     \<lparr>OPENAI_API_KEY = Some ''sk-test'', complete = (\<lambda>docName excerpt. answer),
      embed = (\<lambda>input. vectors), random = (\<lambda>i. 1 / 4), now = 0\<rparr>"

definition unconfiguredEnv :: Env where
  "unconfiguredEnv =
     \<lparr>OPENAI_API_KEY = None, complete = (\<lambda>docName excerpt. CompletionRejected),
      embed = (\<lambda>input. EmbeddingRejected), random = (\<lambda>i. 1 / 4), now = 0\<rparr>"

text \<open>An answer of the provider with a sentiment outside the data model.\<close>

definition outOfRangeAnswer :: json where
  "outOfRangeAnswer =
     JObj [(''sentiment'',
            JObj [(''score'', JNum 5), (''label'', JStr ''angry''), (''confidence'', JNum 2)])]"

text \<open>Two invocations of the background task on one document, one after the other.\<close>

definition processTwice ::
  "Env \<Rightarrow> (ProcessingStatus \<Rightarrow> bool) \<Rightarrow> World \<Rightarrow> string \<Rightarrow> string \<Rightarrow> string \<Rightarrow> outcome \<times> World" where
  "processTwice env storeOk w documentId text fileName =
     processDocumentAI env storeOk
       (snd (processDocumentAI env storeOk w documentId text fileName)) documentId text fileName"

text \<open>A store with one uploaded document, and a provider of 100-dimensional vectors.\<close>

definition pendingWorld :: World where
  "pendingWorld =
     \<lparr>documents = [''d1'' \<mapsto> uploadedDocument ''u1'' ''a.txt'' ''hello''], trace = []\<rparr>"

definition shortVectorEnv :: Env where
  "shortVectorEnv =
     configuredEnv (Parsed (JObj [])) (EmbeddingData [Some (replicate 100 (1 / 2))])"

section \<open>Properties of the sort\<close>

lemma js_insert_key:
  fixes f :: "'a \<Rightarrow> int"
  shows "js_insert (\<lambda>a b. f b - f a) x ys = insort_key (\<lambda>a. - f a) x ys"
  by (induction ys) auto

lemma js_sort_key:
  fixes f :: "'a \<Rightarrow> int"
  shows "js_sort (\<lambda>a b. f b - f a) xs = sort_key (\<lambda>a. - f a) xs"
proof -
  have "js_insert (\<lambda>a b. f b - f a) = insort_key (\<lambda>a. - f a)"
    by (intro ext) (rule js_insert_key)
  then show ?thesis
    by (simp add: js_sort_def sort_key_def)
qed


lemma js_sort_length:
  fixes f :: "'a \<Rightarrow> int"
  shows "length (js_sort (\<lambda>a b. f b - f a) xs) = length xs"
  by (simp add: js_sort_key)

lemma js_sort_set:
  fixes f :: "'a \<Rightarrow> int"
  shows "set (js_sort (\<lambda>a b. f b - f a) xs) = set xs"
  by (simp add: js_sort_key)



section \<open>Topic trend tracking\<close>

lemma fl_add_Finite [simp]: "fl_add fl (Finite x) (Finite y) = fl (x + y)"
  by (simp add: fl_add_def)

lemma fl_mul_Finite [simp]: "fl_mul fl (Finite x) (Finite y) = fl (x * y)"
  by (simp add: fl_mul_def)

lemma fl_div_count_Finite [simp]: "0 < n \<Longrightarrow> fl_div_count fl (Finite x) n = fl (x / real n)"
  by (simp add: fl_div_count_def)

lemma Math_round_Finite [simp]: "Math_round (Finite x) = Finite \<lfloor>x + 1 / 2\<rfloor>"
  by (simp add: Math_round_def)

lemma timeline_addTimelineEntry:
  "timeline (addTimelineEntry fl this entry) =
     js_sort (\<lambda>a b. date b - date a) (timeline this @ [entry])"
  by (simp add: addTimelineEntry_def Let_def)

lemma length_timeline_addTimelineEntry:
  "length (timeline (addTimelineEntry fl this entry)) = Suc (length (timeline this))"
  by (simp add: timeline_addTimelineEntry js_sort_length)

lemma popularityScore_addTimelineEntry:
  "popularityScore (trendData (addTimelineEntry fl this entry)) =
     Math_round
       (fl_add fl (Finite (min (real (length (timeline (addTimelineEntry fl this entry))) * 2) 50))
          (fl_mul fl
             (fl_add fl
                (fl_div_count fl
                   (foldl (\<lambda>sum t. fl_add fl sum (Finite (sentiment t))) (Finite 0)
                      (take 5 (timeline (addTimelineEntry fl this entry))))
                   (length (take 5 (timeline (addTimelineEntry fl this entry)))))
                (Finite 1))
             (Finite 25)))"
  by (simp add: addTimelineEntry_def Let_def)


text \<open>With the arithmetic without rounding, the score is that of the formula over the reals.\<close>

lemma foldl_sentiment_sum:
  "foldl (\<lambda>sum t. fl_add Finite sum (Finite (sentiment t))) (Finite a) xs =
     Finite (a + sum_list (map sentiment xs))"
  by (induction xs arbitrary: a) (simp_all add: add.assoc)

lemma popularityScore_without_rounding:
  "popularityScore (trendData (addTimelineEntry Finite this entry)) =
     Finite \<lfloor>min (real (length (timeline this) + 1) * 2) 50 +
        (sum_list (map sentiment (take 5 (timeline (addTimelineEntry Finite this entry)))) /
           real (min 5 (length (timeline this) + 1)) + 1) * 25 + 1 / 2\<rfloor>"
  by (simp add: popularityScore_addTimelineEntry foldl_sentiment_sum
      length_timeline_addTimelineEntry min.commute)

subsection \<open>The range of the score\<close>

lemma doubleRounding_between:
  assumes "doubleRounding fl"
    and "\<bar>lo\<bar> \<le> 2 ^ 53" and "\<bar>hi\<bar> \<le> 2 ^ 53"
    and "real_of_int lo \<le> x" and "x \<le> real_of_int hi"
  shows "\<exists>a. fl x = Finite a \<and> real_of_int lo \<le> a \<and> a \<le> real_of_int hi"
proof -
  from assms(1) have mono: "\<And>x y a b. x \<le> y \<Longrightarrow> fl x = Finite a \<Longrightarrow> fl y = Finite b \<Longrightarrow> a \<le> b"
    and exact: "\<And>k::int. \<bar>k\<bar> \<le> 2 ^ 53 \<Longrightarrow> fl (real_of_int k) = Finite (real_of_int k)"
    and fin: "\<And>x. \<bar>x\<bar> \<le> 2 ^ 53 \<Longrightarrow> fl x \<noteq> NonFinite"
    unfolding doubleRounding_def by blast+
  have "real_of_int \<bar>lo\<bar> \<le> 2 ^ 53" "real_of_int \<bar>hi\<bar> \<le> 2 ^ 53"
    using assms(2,3) by (metis of_int_le_iff of_int_numeral of_int_power)+
  then have "\<bar>x\<bar> \<le> 2 ^ 53"
    using assms(4,5) by simp
  then have "fl x \<noteq> NonFinite" by (rule fin)
  then obtain a where a: "fl x = Finite a" by (cases "fl x") auto
  have "real_of_int lo \<le> a"
    by (rule mono [OF assms(4) exact [OF assms(2)] a])
  moreover have "a \<le> real_of_int hi"
    by (rule mono [OF assms(5) a exact [OF assms(3)]])
  ultimately show ?thesis using a by blast
qed

lemma sum_sentiment_bounds:
  assumes "doubleRounding fl"
    and "\<forall>e\<in>set xs. sentiment_in_range e"
    and "- real_of_int k \<le> a" and "a \<le> real_of_int k" and "0 \<le> k"
    and "k + int (length xs) \<le> 2 ^ 53"
  shows "\<exists>s. foldl (\<lambda>sum t. fl_add fl sum (Finite (sentiment t))) (Finite a) xs = Finite s
            \<and> - real_of_int (k + int (length xs)) \<le> s
            \<and> s \<le> real_of_int (k + int (length xs))"
  using assms(2-)
proof (induction xs arbitrary: a k)
  case Nil
  then show ?case by simp
next
  case (Cons e es)
  from Cons.prems(1) have e: "- 1 \<le> sentiment e" "sentiment e \<le> 1"
    by (simp_all add: sentiment_in_range_def)
  have lo: "real_of_int (- (k + 1)) \<le> a + sentiment e"
    and hi: "a + sentiment e \<le> real_of_int (k + 1)"
    using Cons.prems(2,3) e by simp_all
  have b: "\<bar>- (k + 1)\<bar> \<le> 2 ^ 53" "\<bar>k + 1\<bar> \<le> 2 ^ 53"
    using Cons.prems(4,5) by simp_all
  from doubleRounding_between [OF assms(1) b lo hi]
  obtain a' where a': "fl (a + sentiment e) = Finite a'"
    "- real_of_int (k + 1) \<le> a'" "a' \<le> real_of_int (k + 1)"
    by auto
  have "\<exists>s. foldl (\<lambda>sum t. fl_add fl sum (Finite (sentiment t))) (Finite a') es = Finite s
      \<and> - real_of_int (k + 1 + int (length es)) \<le> s
      \<and> s \<le> real_of_int (k + 1 + int (length es))"
    using Cons.prems by (intro Cons.IH a') simp_all
  then obtain s where s: "foldl (\<lambda>sum t. fl_add fl sum (Finite (sentiment t))) (Finite a') es
        = Finite s"
    "- real_of_int (k + 1 + int (length es)) \<le> s" "s \<le> real_of_int (k + 1 + int (length es))"
    by blast
  have len: "k + int (length (e # es)) = k + 1 + int (length es)" by simp
  have "foldl (\<lambda>sum t. fl_add fl sum (Finite (sentiment t))) (Finite a) (e # es) = Finite s"
    by (simp add: a'(1) s(1))
  then show ?case
    unfolding len using s(2,3) by blast
qed

lemma avg_sentiment_bounds:
  assumes "doubleRounding fl"
    and "\<forall>e\<in>set xs. sentiment_in_range e" and "xs \<noteq> []" and "length xs \<le> 5"
  shows "\<exists>avg. fl_div_count fl
           (foldl (\<lambda>sum t. fl_add fl sum (Finite (sentiment t))) (Finite 0) xs) (length xs)
           = Finite avg \<and> - 1 \<le> avg \<and> avg \<le> 1"
proof -
  have "int (length xs) \<le> 5" using assms(4) by simp
  then have "0 + int (length xs) \<le> 2 ^ 53" by simp
  from sum_sentiment_bounds [OF assms(1,2) _ _ _ this, of 0]
  obtain s where s: "foldl (\<lambda>sum t. fl_add fl sum (Finite (sentiment t))) (Finite 0) xs = Finite s"
    "- real (length xs) \<le> s" "s \<le> real (length xs)"
    by auto
  have pos: "0 < real (length xs)" using assms(3) by simp
  have lo: "real_of_int (- 1) \<le> s / real (length xs)"
    using s(2) pos by (simp add: pos_le_divide_eq)
  have hi: "s / real (length xs) \<le> real_of_int 1"
    using s(3) pos by (simp add: pos_divide_le_eq)
  from doubleRounding_between [OF assms(1) _ _ lo hi]
  obtain avg where "fl (s / real (length xs)) = Finite avg" "- 1 \<le> avg" "avg \<le> 1"
    by auto
  then show ?thesis
    using assms(3) by (simp add: s(1))
qed

lemma score_bounds:
  assumes "doubleRounding fl"
    and "- 1 \<le> avg" and "avg \<le> 1" and "0 \<le> activity" and "activity \<le> 50"
  shows "\<exists>p. Math_round
           (fl_add fl (Finite activity) (fl_mul fl (fl_add fl (Finite avg) (Finite 1)) (Finite 25)))
           = Finite p \<and> 0 \<le> p \<and> p \<le> 100"
proof -
  have "real_of_int 0 \<le> avg + 1" "avg + 1 \<le> real_of_int 2"
    using assms(2,3) by simp_all
  from doubleRounding_between [OF assms(1) _ _ this]
  obtain u where u: "fl (avg + 1) = Finite u" "0 \<le> u" "u \<le> 2" by auto
  have "real_of_int 0 \<le> u * 25" "u * 25 \<le> real_of_int 50"
    using u(2,3) by simp_all
  from doubleRounding_between [OF assms(1) _ _ this]
  obtain v where v: "fl (u * 25) = Finite v" "0 \<le> v" "v \<le> 50" by auto
  have "real_of_int 0 \<le> activity + v" "activity + v \<le> real_of_int 100"
    using v(2,3) assms(4,5) by simp_all
  from doubleRounding_between [OF assms(1) _ _ this]
  obtain t where t: "fl (activity + v) = Finite t" "0 \<le> t" "t \<le> 100" by auto
  have "0 \<le> \<lfloor>t + 1 / 2\<rfloor>" using t(2) by simp
  moreover have "\<lfloor>t + 1 / 2\<rfloor> \<le> 100" using t(3) by (simp add: floor_le_iff)
  ultimately show ?thesis
    by (simp add: u(1) v(1) t(1))
qed

lemma set_timeline_addTimelineEntry:
  "set (timeline (addTimelineEntry fl this entry)) = insert entry (set (timeline this))"
  by (simp add: timeline_addTimelineEntry js_sort_set)

lemma popularityScore_step_bounds:
  assumes rnd: "doubleRounding fl"
    and old: "\<forall>e\<in>set (timeline this). sentiment_in_range e"
    and new: "sentiment_in_range entry"
  shows "\<exists>p. popularityScore (trendData (addTimelineEntry fl this entry)) = Finite p
            \<and> 0 \<le> p \<and> p \<le> 100"
proof -
  let ?tl = "timeline (addTimelineEntry fl this entry)"
  let ?recent = "take 5 ?tl"
  have "?tl \<noteq> []"
    using length_timeline_addTimelineEntry [of fl this entry] by auto
  then have ne: "?recent \<noteq> []" by simp
  have "\<forall>e\<in>set ?tl. sentiment_in_range e"
    using old new by (simp add: set_timeline_addTimelineEntry)
  then have rng: "\<forall>e\<in>set ?recent. sentiment_in_range e"
    by (meson in_set_takeD)
  have "length ?recent \<le> 5" by simp
  from avg_sentiment_bounds [OF rnd rng ne this]
  obtain avg where avg: "fl_div_count fl
      (foldl (\<lambda>sum t. fl_add fl sum (Finite (sentiment t))) (Finite 0) ?recent) (length ?recent)
      = Finite avg" "- 1 \<le> avg" "avg \<le> 1"
    by blast
  have a: "0 \<le> min (real (length ?tl) * 2) 50" "min (real (length ?tl) * 2) 50 \<le> 50"
    by simp_all
  from score_bounds [OF rnd avg(2,3) a] show ?thesis
    unfolding popularityScore_addTimelineEntry avg(1) .
qed

lemma addTimelineEntries_snoc:
  "addTimelineEntries fl this (calls @ [entry]) =
     addTimelineEntry fl (addTimelineEntries fl this calls) entry"
  by (simp add: addTimelineEntries_def)

lemma set_timeline_addTimelineEntries:
  "set (timeline (addTimelineEntries fl this calls)) = set (timeline this) \<union> set calls"
proof (induction calls rule: rev_induct)
  case Nil
  show ?case by (simp add: addTimelineEntries_def)
next
  case (snoc entry calls)
  then show ?case
    by (simp add: addTimelineEntries_snoc set_timeline_addTimelineEntry)
qed

text \<open>
  Claim C8. From a topic whose timeline holds sentiments in \<open>[-1, 1]\<close> (a new topic
  has none), after each call of a run of \<open>addTimelineEntry\<close> calls with sentiments in
  \<open>[-1, 1]\<close> the popularity score is an integer between 0 and 100, whatever the rounding
  of the double arithmetic does within its laws.
\<close>

theorem popularityScore_in_range:
  assumes "doubleRounding fl"
    and "\<forall>e\<in>set (timeline this). sentiment_in_range e"
    and "\<forall>e\<in>set entries. sentiment_in_range e"
    and "0 < n" and "n \<le> length entries"
  shows "\<exists>p. popularityScore (trendData (addTimelineEntries fl this (take n entries))) = Finite p
            \<and> 0 \<le> p \<and> p \<le> 100"
proof -
  from assms(4,5) have "take n entries \<noteq> []" by auto
  then obtain calls entry where split: "take n entries = calls @ [entry]"
    by (meson rev_exhaust)
  have sub: "set (calls @ [entry]) \<subseteq> set entries"
    unfolding split [symmetric] by (rule set_take_subset)
  have "\<forall>e\<in>set (timeline (addTimelineEntries fl this calls)). sentiment_in_range e"
    using assms(2,3) sub by (auto simp: set_timeline_addTimelineEntries)
  moreover have "sentiment_in_range entry"
    using assms(3) sub by auto
  ultimately show ?thesis
    unfolding split addTimelineEntries_snoc
    by (rule popularityScore_step_bounds [OF assms(1)])
qed

lemma doubleRounding_Finite: "doubleRounding Finite"
  by (simp add: doubleRounding_def)

lemma six_entries_scenario:
  "trendData (addTimelineEntries Finite (newTopic ''u'' ''ai'') sixEntries) =
   \<lparr>frequency = 6, sentimentTrend = [- 1, 1, 1, 1, 1, 1], popularityScore = Finite 52\<rparr>"
  by (simp add: addTimelineEntries_def addTimelineEntry_def sixEntries_def timelineEntry_def
      newTopic_def js_sort_def Let_def)

theorem popularityScore_in_range_witness:
  "doubleRounding Finite
   \<and> (\<exists>p. popularityScore
            (trendData (addTimelineEntries Finite (newTopic ''u'' ''ai'') (take 6 sixEntries)))
          = Finite p \<and> 0 \<le> p \<and> p \<le> 100)"
proof -
  have a: "\<forall>e\<in>set (timeline (newTopic ''u'' ''ai'')). sentiment_in_range e"
    by (simp add: newTopic_def)
  have b: "\<forall>e\<in>set sixEntries. sentiment_in_range e"
    by (simp add: sixEntries_def timelineEntry_def sentiment_in_range_def)
  have c: "(0::nat) < 6" "6 \<le> length sixEntries"
    by (simp_all add: sixEntries_def)
  show ?thesis
    using doubleRounding_Finite popularityScore_in_range [OF doubleRounding_Finite a b c]
    by blast
qed

section \<open>The embedding service and the persistence hook\<close>

lemma apiKeyConfigured_configuredEnv: "apiKeyConfigured (configuredEnv answer vectors)"
  by (simp add: apiKeyConfigured_def configuredEnv_def)

lemma apiKeyConfigured_unconfiguredEnv: "\<not> apiKeyConfigured unconfiguredEnv"
  by (simp add: apiKeyConfigured_def unconfiguredEnv_def)

lemma length_simulatedEmbeddings: "length (simulatedEmbeddings env) = 1536"
  by (simp add: simulatedEmbeddings_def)

lemma range_simulatedEmbeddings:
  assumes "\<forall>i<1536. 0 \<le> random env i \<and> random env i < 1"
  shows "\<forall>x\<in>set (simulatedEmbeddings env). - 1 \<le> x \<and> x < 1"
proof
  fix x assume "x \<in> set (simulatedEmbeddings env)"
  then obtain i where i: "i < 1536" and x: "x = random env i * 2 - 1"
    by (auto simp: simulatedEmbeddings_def)
  from assms i have "0 \<le> random env i" "random env i < 1" by auto
  then show "- 1 \<le> x \<and> x < 1" unfolding x by simp
qed

text \<open>
  Claim C1, as stated, fails: with an API key configured and a response of the provider
  whose \<open>data\<close> is empty, \<open>generateEmbeddings\<close> returns the empty vector.
\<close>

theorem generateEmbeddings_empty_response:
  "length (generateEmbeddings (configuredEnv NoContent (EmbeddingData [])) ''hello'') \<noteq> 1536"
  by (simp add: generateEmbeddings_def apiKeyConfigured_configuredEnv)
     (simp add: configuredEnv_def)

text \<open>
  Claim C1, amended. Without a configured API key, or when the provider call rejects,
  \<open>generateEmbeddings\<close> returns 1536 values \<open>Math.random() * 2 - 1\<close>, each in
  \<open>[-1, 1)\<close> for random values in \<open>[0, 1)\<close>. When the provider call resolves, it
  returns the embedding of the first item of the response as it is, of whatever length,
  and the empty vector when there is no first item or it has no embedding.
\<close>

theorem generateEmbeddings_cases:
  "(\<not> apiKeyConfigured env \<or> embed env (take 8000 text) = EmbeddingRejected \<longrightarrow>
      generateEmbeddings env text = map (\<lambda>i. random env i * 2 - 1) [0..<1536]
      \<and> length (generateEmbeddings env text) = 1536
      \<and> ((\<forall>i<1536. 0 \<le> random env i \<and> random env i < 1) \<longrightarrow>
           (\<forall>x\<in>set (generateEmbeddings env text). - 1 \<le> x \<and> x < 1)))
   \<and> (apiKeyConfigured env \<and> embed env (take 8000 text) = EmbeddingData items \<longrightarrow>
        generateEmbeddings env text =
          (case items of Some embedding # rest \<Rightarrow> embedding | _ \<Rightarrow> []))"
proof (intro conjI impI)
  assume fallback: "\<not> apiKeyConfigured env \<or> embed env (take 8000 text) = EmbeddingRejected"
  then have eq: "generateEmbeddings env text = simulatedEmbeddings env"
    by (auto simp: generateEmbeddings_def)
  show "generateEmbeddings env text = map (\<lambda>i. random env i * 2 - 1) [0..<1536]"
    by (simp add: eq simulatedEmbeddings_def)
  show "length (generateEmbeddings env text) = 1536"
    by (simp add: eq length_simulatedEmbeddings)
  assume "\<forall>i<1536. 0 \<le> random env i \<and> random env i < 1"
  then show "\<forall>x\<in>set (generateEmbeddings env text). - 1 \<le> x \<and> x < 1"
    unfolding eq by (rule range_simulatedEmbeddings)
next
  assume "apiKeyConfigured env \<and> embed env (take 8000 text) = EmbeddingData items"
  then show "generateEmbeddings env text =
      (case items of Some embedding # rest \<Rightarrow> embedding | _ \<Rightarrow> [])"
    by (simp add: generateEmbeddings_def split: list.splits option.splits)
qed

theorem generateEmbeddings_cases_witness:
  "\<not> apiKeyConfigured unconfiguredEnv
   \<and> length (generateEmbeddings unconfiguredEnv ''hello'') = 1536
   \<and> - 1 \<le> generateEmbeddings unconfiguredEnv ''hello'' ! 7
   \<and> generateEmbeddings unconfiguredEnv ''hello'' ! 7 < 1
   \<and> apiKeyConfigured (configuredEnv NoContent (EmbeddingData [Some [1 / 2, 1 / 3]]))
   \<and> generateEmbeddings (configuredEnv NoContent (EmbeddingData [Some [1 / 2, 1 / 3]])) ''hello''
       = [1 / 2, 1 / 3]"
proof -
  have a: "\<not> apiKeyConfigured unconfiguredEnv"
    by (rule apiKeyConfigured_unconfiguredEnv)
  have r: "\<forall>i<1536. 0 \<le> random unconfiguredEnv i \<and> random unconfiguredEnv i < 1"
    by (simp add: unconfiguredEnv_def)
  have c: "apiKeyConfigured (configuredEnv NoContent (EmbeddingData [Some [1 / 2, 1 / 3]]))"
    by (rule apiKeyConfigured_configuredEnv)
  have e: "embed (configuredEnv NoContent (EmbeddingData [Some [1 / 2, 1 / 3]])) (take 8000 ''hello'')
      = EmbeddingData [Some [1 / 2, 1 / 3]]"
    by (simp add: configuredEnv_def)
  from a r generateEmbeddings_cases [of unconfiguredEnv "''hello''"]
  have len: "length (generateEmbeddings unconfiguredEnv ''hello'') = 1536"
    and rng: "\<forall>x\<in>set (generateEmbeddings unconfiguredEnv ''hello''). - 1 \<le> x \<and> x < 1"
    by blast+
  from len have "generateEmbeddings unconfiguredEnv ''hello'' ! 7
      \<in> set (generateEmbeddings unconfiguredEnv ''hello'')"
    by (intro nth_mem) simp
  with rng have seventh: "- 1 \<le> generateEmbeddings unconfiguredEnv ''hello'' ! 7"
    "generateEmbeddings unconfiguredEnv ''hello'' ! 7 < 1"
    by blast+
  from c e generateEmbeddings_cases
      [of "configuredEnv NoContent (EmbeddingData [Some [1 / 2, 1 / 3]])" "''hello''"
        "[Some [1 / 2, 1 / 3]]"]
  have "generateEmbeddings (configuredEnv NoContent (EmbeddingData [Some [1 / 2, 1 / 3]])) ''hello''
      = [1 / 2, 1 / 3]"
    by simp
  with a c len seventh show ?thesis by blast
qed

text \<open>
  Claim C10. The pre-save hook accepts a document whose embeddings are the empty array,
  and \<open>save\<close> stores it; the hook raises the dimension error exactly for a non-empty
  vector whose length is not 1536.
\<close>

theorem empty_embeddings_accepted:
  "(embeddings this = Some [] \<longrightarrow>
      embeddingsHook this = Inr this
      \<and> save docs documentId modifiedPaths this =
          Inr (docs(documentId \<mapsto> readingTimeHook modifiedPaths this)))
   \<and> (embeddingsHook this = Inl EmbeddingsDimensionError \<longleftrightarrow>
        (\<exists>e. embeddings this = Some e \<and> e \<noteq> [] \<and> length e \<noteq> 1536))"
  by (auto simp: embeddingsHook_def save_def readingTimeHook_def split: option.splits)

theorem empty_embeddings_accepted_witness:
  "embeddings (uploadedDocument ''u1'' ''a.txt'' ''hello'') = Some []
   \<and> embeddingsHook (uploadedDocument ''u1'' ''a.txt'' ''hello'') =
       Inr (uploadedDocument ''u1'' ''a.txt'' ''hello'')
   \<and> (\<exists>docs. save Map.empty ''d1'' [''wordCount''] (uploadedDocument ''u1'' ''a.txt'' ''hello'')
         = Inr docs)"
proof -
  have e: "embeddings (uploadedDocument ''u1'' ''a.txt'' ''hello'') = Some []"
    by (simp add: uploadedDocument_def)
  show ?thesis
    using e empty_embeddings_accepted
      [of "uploadedDocument ''u1'' ''a.txt'' ''hello''" Map.empty "''d1''" "[''wordCount'']"]
    by simp
qed

lemma calculateSimilarity_absent:
  "embeddings this = None \<or> embeddings otherDocument = None \<Longrightarrow>
     calculateSimilarity this otherDocument = Num 0"
  by (auto simp: calculateSimilarity_def split: option.splits)

lemma calculateSimilarity_this_empty:
  "embeddings this = Some [] \<Longrightarrow> calculateSimilarity this otherDocument = Num 0"
  by (auto simp: calculateSimilarity_def similaritySums_def split: option.splits)

text \<open>
  Claim C9 at a failing input: a document with the embeddings \<open>[1]\<close> compared with a
  document whose embeddings are the empty array (the default of the schema). The loop
  reads past the end of the empty array, and the result is \<open>NaN\<close>, not 0.
\<close>

theorem calculateSimilarity_other_empty_NaN:
  "calculateSimilarity
     ((uploadedDocument ''u1'' ''a.txt'' ''hello'')\<lparr>embeddings := Some [1]\<rparr>)
     (uploadedDocument ''u1'' ''b.txt'' ''world'') = NaN"
  by (simp add: calculateSimilarity_def similaritySums_def uploadedDocument_def element_def)


section \<open>The analysis engine\<close>

lemma requestCompletion_configuredEnv:
  "requestCompletion (configuredEnv answer vectors) text fileName = answer"
  by (simp add: requestCompletion_def configuredEnv_def)

lemma analyzeDocument_catches:
  "remoteAnalysis env text fileName = Inl e \<Longrightarrow>
     analyzeDocument env text fileName = generateSimulatedAnalysis text fileName"
  by (simp add: analyzeDocument_def)

lemma remoteAnalysis_failures:
  assumes "requestCompletion env text fileName = CompletionRejected
     \<or> requestCompletion env text fileName = NoContent
     \<or> requestCompletion env text fileName = NotJson payload
     \<or> requestCompletion env text fileName = Parsed JNull"
  shows "\<exists>e. remoteAnalysis env text fileName = Inl e"
  using assms by (auto simp: remoteAnalysis_def validatedAnalysis_def)

text \<open>
  Claim C2. \<open>analyzeDocument\<close> returns an analysis in every case. Without a configured
  API key, and whenever the remote path fails (the provider call rejects, the completion
  is empty, the payload is not JSON, or any other error of the \<open>try\<close> block, such as a
  payload that parses to \<open>null\<close>), the result is that of \<open>generateSimulatedAnalysis\<close>
  on the same text and file name; otherwise it is the validated answer of the provider.
\<close>

theorem analyzeDocument_falls_back:
  "(\<not> apiKeyConfigured env
     \<or> requestCompletion env text fileName = CompletionRejected
     \<or> requestCompletion env text fileName = NoContent
     \<or> requestCompletion env text fileName = NotJson payload
     \<or> requestCompletion env text fileName = Parsed JNull
     \<or> remoteAnalysis env text fileName = Inl e
    \<longrightarrow> analyzeDocument env text fileName = generateSimulatedAnalysis text fileName)
   \<and> (apiKeyConfigured env \<and> remoteAnalysis env text fileName = Inr analysis
        \<longrightarrow> analyzeDocument env text fileName = analysis)"
proof (intro conjI impI)
  assume "\<not> apiKeyConfigured env
     \<or> requestCompletion env text fileName = CompletionRejected
     \<or> requestCompletion env text fileName = NoContent
     \<or> requestCompletion env text fileName = NotJson payload
     \<or> requestCompletion env text fileName = Parsed JNull
     \<or> remoteAnalysis env text fileName = Inl e"
  then have "\<not> apiKeyConfigured env \<or> (\<exists>e. remoteAnalysis env text fileName = Inl e)"
    using remoteAnalysis_failures [of env "text" fileName payload] by blast
  then show "analyzeDocument env text fileName = generateSimulatedAnalysis text fileName"
  proof
    assume "\<not> apiKeyConfigured env"
    then show ?thesis by (simp add: analyzeDocument_def)
  next
    assume "\<exists>e. remoteAnalysis env text fileName = Inl e"
    then show ?thesis by (auto dest: analyzeDocument_catches)
  qed
next
  assume "apiKeyConfigured env \<and> remoteAnalysis env text fileName = Inr analysis"
  then show "analyzeDocument env text fileName = analysis"
    by (simp add: analyzeDocument_def)
qed

theorem analyzeDocument_falls_back_witness:
  "requestCompletion (configuredEnv (NotJson ''Sorry, I cannot.'') EmbeddingRejected) ''hello''
      (Some ''a.txt'') = NotJson ''Sorry, I cannot.''
   \<and> analyzeDocument (configuredEnv (NotJson ''Sorry, I cannot.'') EmbeddingRejected) ''hello''
        (Some ''a.txt'') = generateSimulatedAnalysis ''hello'' (Some ''a.txt'')"
proof -
  have r: "requestCompletion (configuredEnv (NotJson ''Sorry, I cannot.'') EmbeddingRejected)
      ''hello'' (Some ''a.txt'') = NotJson ''Sorry, I cannot.''"
    by (rule requestCompletion_configuredEnv)
  show ?thesis
    using r analyzeDocument_falls_back
      [of "configuredEnv (NotJson ''Sorry, I cannot.'') EmbeddingRejected" "''hello''"
        "Some ''a.txt''" "''Sorry, I cannot.''"]
    by simp
qed

lemma capped_ratio_range:
  fixes p n :: nat
  shows "0 \<le> min 0.8 (real p / real (p + n + 1))" and "min 0.8 (real p / real (p + n + 1)) \<le> 1"
proof -
  have "0 \<le> real p / real (p + n + 1)" by simp
  then show "0 \<le> min 0.8 (real p / real (p + n + 1))" by simp
  have "min 0.8 (real p / real (p + n + 1)) \<le> 0.8" by (rule min.cobounded1)
  then show "min 0.8 (real p / real (p + n + 1)) \<le> 1" by simp
qed

lemma simulatedSentiment_range:
  assumes "simulatedSentiment text = (s, l)"
  shows "- 1 \<le> s \<and> s \<le> 1 \<and> (l = ''positive'' \<or> l = ''negative'' \<or> l = ''neutral'')"
proof -
  let ?p = "countAll positiveWords (toLowerCase text)"
  let ?n = "countAll negativeWords (toLowerCase text)"
  note pos = capped_ratio_range [of ?p ?n]
  note neg = capped_ratio_range [of ?n ?p]
  have swap: "real (?n + ?p + 1) = real (?p + ?n + 1)" by simp
  consider "?n < ?p" | "\<not> ?n < ?p" "?p < ?n" | "\<not> ?n < ?p" "\<not> ?p < ?n" by blast
  then show ?thesis
  proof cases
    case 1
    with assms have s: "s = min 0.8 (real ?p / real (?p + ?n + 1))" and l: "l = ''positive''"
      by (simp_all add: simulatedSentiment_def Let_def)
    have "0 \<le> s" "s \<le> 1" unfolding s by (rule pos)+
    with l show ?thesis by simp
  next
    case 2
    with assms have s: "s = - min 0.8 (real ?n / real (?n + ?p + 1))" and l: "l = ''negative''"
      by (simp_all add: simulatedSentiment_def Let_def add.commute)
    have "0 \<le> - s" "- s \<le> 1" unfolding s minus_minus by (rule neg)+
    with l show ?thesis by simp
  next
    case 3
    with assms have "s = 0" "l = ''neutral''"
      by (simp_all add: simulatedSentiment_def Let_def)
    then show ?thesis by simp
  qed
qed

lemma sentimentInModel_simulated:
  "sentimentInModel (analysisSentiment (generateSimulatedAnalysis text fileName))"
proof -
  obtain s l where sl: "simulatedSentiment text = (s, l)"
    by (cases "simulatedSentiment text")
  from simulatedSentiment_range [OF sl] show ?thesis
    by (auto simp: generateSimulatedAnalysis_def Let_def sl sentimentInModel_def
        scoreInModel_def labelInModel_def confidenceInModel_def)
qed

lemma orElse_inModel_iff:
  assumes "P d"
  shows "P (orElse field d) \<longleftrightarrow> suppliedInModel P field"
  using assms by (cases field) (auto simp: suppliedInModel_def)

lemma sentimentInModel_validated:
  assumes "validatedAnalysis analysis text = Inr a"
  shows "sentimentInModel (analysisSentiment a) \<longleftrightarrow> providerSentimentInModel analysis"
proof -
  have s0: "scoreInModel (JNum 0)" by (simp add: scoreInModel_def)
  have l0: "labelInModel (JStr ''neutral'')" by (simp add: labelInModel_def)
  have c0: "confidenceInModel (JNum (1 / 2))" by (simp add: confidenceInModel_def)
  from assms have "analysisSentiment a =
      \<lparr>score = orElse (optChain (getProp analysis ''sentiment'') ''score'') (JNum 0),
       label = orElse (optChain (getProp analysis ''sentiment'') ''label'') (JStr ''neutral''),
       confidence = orElse (optChain (getProp analysis ''sentiment'') ''confidence'') (JNum 0.5)\<rparr>"
    by (auto simp: validatedAnalysis_def Let_def split: if_splits)
  then show ?thesis
    by (simp add: sentimentInModel_def providerSentimentInModel_def
        orElse_inModel_iff [of scoreInModel "JNum 0", OF s0]
        orElse_inModel_iff [of labelInModel "JStr ''neutral''", OF l0]
        orElse_inModel_iff [of confidenceInModel "JNum (1 / 2)", OF c0])
qed

text \<open>
  Claim C6, as stated, fails: a provider answer with the sentiment
  \<open>{score: 5, label: "angry", confidence: 2}\<close> is returned unchanged.
\<close>

theorem analyzeDocument_sentiment_unchecked:
  "\<not> sentimentInModel (analysisSentiment
        (analyzeDocument (configuredEnv (Parsed outOfRangeAnswer) EmbeddingRejected) ''hello''
           (Some ''a.txt'')))"
  by (simp add: analyzeDocument_def apiKeyConfigured_configuredEnv remoteAnalysis_def
      requestCompletion_configuredEnv validatedAnalysis_def outOfRangeAnswer_def
      sentimentInModel_def scoreInModel_def Let_def)

text \<open>
  Claim C6, amended. On the fallback path the sentiment satisfies the data model. On the
  remote path the engine only replaces missing or falsy fields by the defaults
  \<open>0\<close>, \<open>neutral\<close>, \<open>0.5\<close> and checks no range: the sentiment satisfies the data
  model exactly when every sentiment field the provider supplied does.
\<close>

theorem analyzeDocument_sentiment:
  "(\<not> apiKeyConfigured env \<or> remoteAnalysis env text fileName = Inl e \<longrightarrow>
      sentimentInModel (analysisSentiment (analyzeDocument env text fileName)))
   \<and> (apiKeyConfigured env \<and> requestCompletion env text fileName = Parsed analysis
        \<and> analysis \<noteq> JNull \<longrightarrow>
      (sentimentInModel (analysisSentiment (analyzeDocument env text fileName))
         \<longleftrightarrow> providerSentimentInModel analysis))"
proof (intro conjI impI)
  assume "\<not> apiKeyConfigured env \<or> remoteAnalysis env text fileName = Inl e"
  then have "analyzeDocument env text fileName = generateSimulatedAnalysis text fileName"
    by (auto simp: analyzeDocument_def)
  then show "sentimentInModel (analysisSentiment (analyzeDocument env text fileName))"
    by (simp add: sentimentInModel_simulated)
next
  assume a: "apiKeyConfigured env \<and> requestCompletion env text fileName = Parsed analysis
        \<and> analysis \<noteq> JNull"
  then obtain r where r: "validatedAnalysis analysis text = Inr r"
    by (auto simp: validatedAnalysis_def Let_def)
  with a have "analyzeDocument env text fileName = r"
    by (simp add: analyzeDocument_def remoteAnalysis_def)
  then show "sentimentInModel (analysisSentiment (analyzeDocument env text fileName))
         \<longleftrightarrow> providerSentimentInModel analysis"
    using sentimentInModel_validated [OF r] by simp
qed

theorem analyzeDocument_sentiment_witness:
  "\<not> apiKeyConfigured unconfiguredEnv
   \<and> sentimentInModel (analysisSentiment (analyzeDocument unconfiguredEnv ''hello'' (Some ''a.txt'')))
   \<and> apiKeyConfigured (configuredEnv (Parsed (JObj [])) EmbeddingRejected)
   \<and> providerSentimentInModel (JObj [])
   \<and> sentimentInModel (analysisSentiment
        (analyzeDocument (configuredEnv (Parsed (JObj [])) EmbeddingRejected) ''hello''
           (Some ''a.txt'')))"
proof -
  have a: "\<not> apiKeyConfigured unconfiguredEnv"
    by (rule apiKeyConfigured_unconfiguredEnv)
  have c: "apiKeyConfigured (configuredEnv (Parsed (JObj [])) EmbeddingRejected)"
    by (rule apiKeyConfigured_configuredEnv)
  have q: "requestCompletion (configuredEnv (Parsed (JObj [])) EmbeddingRejected) ''hello''
      (Some ''a.txt'') = Parsed (JObj [])"
    by (rule requestCompletion_configuredEnv)
  have p: "providerSentimentInModel (JObj [])"
    by (simp add: providerSentimentInModel_def suppliedInModel_def)
  show ?thesis
    using a c q p analyzeDocument_sentiment [of unconfiguredEnv "''hello''" "Some ''a.txt''"]
      analyzeDocument_sentiment [of "configuredEnv (Parsed (JObj [])) EmbeddingRejected"
        "''hello''" "Some ''a.txt''" _ "JObj []"]
    by simp
qed


section \<open>The background task\<close>

lemma markProcessing_unconditional:
  "documents w documentId = Some doc \<Longrightarrow>
     documents (markProcessing w documentId) documentId =
       Some (doc\<lparr>processingStatus := Processing\<rparr>)"
  by (simp add: markProcessing_def findByIdAndUpdate_def)

lemma processDocumentAI_run:
  assumes "storeOk Processing" and "storeOk Completed"
  shows "processDocumentAI env storeOk w documentId text fileName =
     (Resolved,
      storeAnalysis env
        ((markProcessing w documentId)
           \<lparr>trace := trace w @ [StatusUpdate documentId Processing, AnalysisRun text,
                                 EmbeddingsRun text]\<rparr>)
        documentId (analyzeDocument env text (Some fileName)) (generateEmbeddings env text))"
  using assms by (simp add: processDocumentAI_def Let_def markProcessing_def)

lemma trace_processDocumentAI:
  assumes "storeOk Processing" and "storeOk Completed"
  shows "trace (snd (processDocumentAI env storeOk w documentId text fileName)) =
     trace w @ [StatusUpdate documentId Processing, AnalysisRun text, EmbeddingsRun text,
                StatusUpdate documentId Completed]"
  by (simp add: processDocumentAI_run [OF assms] storeAnalysis_def)

lemma stored_processDocumentAI:
  assumes "storeOk Processing" and "storeOk Completed" and "documents w documentId = Some doc"
  shows "\<exists>d. documents (snd (processDocumentAI env storeOk w documentId text fileName)) documentId
            = Some d
          \<and> processingStatus d = Completed
          \<and> embeddings d = Some (generateEmbeddings env text)"
  using assms(3)
  by (simp add: processDocumentAI_run [OF assms(1,2)] storeAnalysis_def markProcessing_def
      findByIdAndUpdate_def)

text \<open>
  Claim C3, as stated, fails: two invocations on the same pending document write the
  status \<open>processing\<close> twice and run the analysis twice.
\<close>

theorem processDocumentAI_twice_runs_twice:
  "count_list (trace (snd (processTwice unconfiguredEnv (\<lambda>s. True) pendingWorld ''d1'' ''hello''
       ''a.txt''))) (StatusUpdate ''d1'' Processing) = 2
   \<and> count_list (trace (snd (processTwice unconfiguredEnv (\<lambda>s. True) pendingWorld ''d1'' ''hello''
       ''a.txt''))) (AnalysisRun ''hello'') = 2"
  by (simp add: processTwice_def trace_processDocumentAI pendingWorld_def)

text \<open>
  Claim C3, amended. \<open>processDocumentAI\<close> does not read the current status: its
  first step writes \<open>processing\<close> whatever the status of the document is. Each
  invocation whose writes the store accepts performs that write, one analysis run, one
  embedding run and the write of \<open>completed\<close>; two invocations on one document perform
  each of them twice.
\<close>

theorem processDocumentAI_unconditional:
  assumes "storeOk Processing" and "storeOk Completed" and "documents w documentId = Some doc"
  shows "documents (markProcessing w documentId) documentId =
           Some (doc\<lparr>processingStatus := Processing\<rparr>)
       \<and> trace (snd (processDocumentAI env storeOk w documentId text fileName)) =
           trace w @ [StatusUpdate documentId Processing, AnalysisRun text, EmbeddingsRun text,
                      StatusUpdate documentId Completed]
       \<and> trace (snd (processTwice env storeOk w documentId text fileName)) =
           trace w @ [StatusUpdate documentId Processing, AnalysisRun text, EmbeddingsRun text,
                      StatusUpdate documentId Completed,
                      StatusUpdate documentId Processing, AnalysisRun text, EmbeddingsRun text,
                      StatusUpdate documentId Completed]"
  using assms
  by (simp add: markProcessing_unconditional trace_processDocumentAI processTwice_def)

theorem processDocumentAI_unconditional_witness:
  "documents pendingWorld ''d1'' = Some (uploadedDocument ''u1'' ''a.txt'' ''hello'')
   \<and> documents (markProcessing pendingWorld ''d1'') ''d1'' =
        Some ((uploadedDocument ''u1'' ''a.txt'' ''hello'')\<lparr>processingStatus := Processing\<rparr>)
   \<and> trace (snd (processDocumentAI unconfiguredEnv (\<lambda>s. True) pendingWorld ''d1'' ''hello''
        ''a.txt'')) =
        [StatusUpdate ''d1'' Processing, AnalysisRun ''hello'', EmbeddingsRun ''hello'',
         StatusUpdate ''d1'' Completed]"
proof -
  have d: "documents pendingWorld ''d1'' = Some (uploadedDocument ''u1'' ''a.txt'' ''hello'')"
    by (simp add: pendingWorld_def)
  have t: "trace pendingWorld = []"
    by (simp add: pendingWorld_def)
  show ?thesis
    using d t processDocumentAI_unconditional [of "\<lambda>s. True" pendingWorld "''d1''"
        "uploadedDocument ''u1'' ''a.txt'' ''hello''" unconfiguredEnv "''hello''" "''a.txt''"]
    by simp
qed

lemma generateEmbeddings_shortVectorEnv:
  "generateEmbeddings shortVectorEnv text = replicate 100 (1 / 2)"
  unfolding shortVectorEnv_def
  by (simp add: generateEmbeddings_def apiKeyConfigured_configuredEnv) (simp add: configuredEnv_def)

text \<open>
  Claim C5 at a failing input: the embedding provider answers with a vector of length
  100. The pre-save hook rejects a document with that vector, but \<open>processDocumentAI\<close>
  persists through \<open>findByIdAndUpdate\<close>, which runs no save middleware: the vector is
  stored and the document is marked \<open>completed\<close>.
\<close>

theorem processDocumentAI_stores_short_vector:
  "embeddingsHook ((uploadedDocument ''u1'' ''a.txt'' ''hello'')
       \<lparr>embeddings := Some (replicate 100 (1 / 2))\<rparr>) = Inl EmbeddingsDimensionError
   \<and> (\<exists>d. documents (snd (processDocumentAI shortVectorEnv (\<lambda>s. True) pendingWorld ''d1''
              ''hello'' ''a.txt'')) ''d1'' = Some d
          \<and> processingStatus d = Completed
          \<and> embeddings d = Some (replicate 100 (1 / 2))
          \<and> length (replicate 100 (1 / 2 :: real)) = 100)"
proof -
  have "embeddingsHook ((uploadedDocument ''u1'' ''a.txt'' ''hello'')
       \<lparr>embeddings := Some (replicate 100 (1 / 2))\<rparr>) = Inl EmbeddingsDimensionError"
    by (simp add: embeddingsHook_def)
  moreover have "documents pendingWorld ''d1'' = Some (uploadedDocument ''u1'' ''a.txt'' ''hello'')"
    by (simp add: pendingWorld_def)
  then have "\<exists>d. documents (snd (processDocumentAI shortVectorEnv (\<lambda>s. True) pendingWorld ''d1''
              ''hello'' ''a.txt'')) ''d1'' = Some d
          \<and> processingStatus d = Completed
          \<and> embeddings d = Some (generateEmbeddings shortVectorEnv ''hello'')"
    by (intro stored_processDocumentAI) simp_all
  ultimately show ?thesis
    by (simp add: generateEmbeddings_shortVectorEnv)
qed


section \<open>Keywords of the simulated analysis\<close>

lemma firstOccurrences_snoc:
  "firstOccurrences (ws @ [w]) =
     (if w \<in> set ws then firstOccurrences ws else firstOccurrences ws @ [w])"
  by (simp add: firstOccurrences_def)

lemma set_firstOccurrences: "set (firstOccurrences ws) = set ws"
  by (simp add: firstOccurrences_def)

lemma distinct_firstOccurrences: "distinct (firstOccurrences ws)"
  by (simp add: firstOccurrences_def)

lemma map_of_tabulated:
  "map_of (map (\<lambda>k. (k, f k)) ks) k = (if k \<in> set ks then Some (f k) else None)"
  by (induction ks) auto

lemma setProp_new:
  "k \<notin> set ks \<Longrightarrow> setProp k v (map (\<lambda>x. (x, f x)) ks) = map (\<lambda>x. (x, f x)) ks @ [(k, v)]"
  by (induction ks) auto

lemma setProp_existing:
  "k \<in> set ks \<Longrightarrow> distinct ks \<Longrightarrow>
     setProp k v (map (\<lambda>x. (x, f x)) ks) = map (\<lambda>x. (x, if x = k then v else f x)) ks"
  by (induction ks) auto

lemma countWord_tabulated:
  assumes "w \<noteq> ''constructor''" and "w \<noteq> ''__proto__''"
  shows "countWord (map (\<lambda>x. (x, Count (count_list ws x))) (firstOccurrences ws)) w =
     map (\<lambda>x. (x, Count (count_list (ws @ [w]) x))) (firstOccurrences (ws @ [w]))"
proof (cases "w \<in> set ws")
  case True
  then have "countWord (map (\<lambda>x. (x, Count (count_list ws x))) (firstOccurrences ws)) w =
      setProp w (Count (count_list ws w + 1))
        (map (\<lambda>x. (x, Count (count_list ws x))) (firstOccurrences ws))"
    by (simp add: countWord_def map_of_tabulated set_firstOccurrences)
  also have "\<dots> = map (\<lambda>x. (x, if x = w then Count (count_list ws w + 1)
                                 else Count (count_list ws x))) (firstOccurrences ws)"
    using True by (simp add: setProp_existing set_firstOccurrences distinct_firstOccurrences)
  also have "\<dots> = map (\<lambda>x. (x, Count (count_list (ws @ [w]) x))) (firstOccurrences ws)"
    by (rule map_cong) auto
  finally show ?thesis
    using True by (simp add: firstOccurrences_snoc)
next
  case False
  then have step: "countWord (map (\<lambda>x. (x, Count (count_list ws x))) (firstOccurrences ws)) w =
      map (\<lambda>x. (x, Count (count_list ws x))) (firstOccurrences ws) @ [(w, Count 1)]"
    using assms by (simp add: countWord_def map_of_tabulated set_firstOccurrences setProp_new)
  have same: "map (\<lambda>x. (x, Count (count_list ws x))) (firstOccurrences ws) =
      map (\<lambda>x. (x, Count (count_list (ws @ [w]) x))) (firstOccurrences ws)"
    using False by (intro map_cong) (auto simp: set_firstOccurrences)
  have last: "count_list (ws @ [w]) w = 1"
    using False by (simp add: count_list_0_iff)
  have "map (\<lambda>x. (x, Count (count_list (ws @ [w]) x))) (firstOccurrences (ws @ [w])) =
      map (\<lambda>x. (x, Count (count_list (ws @ [w]) x))) (firstOccurrences ws) @ [(w, Count 1)]"
    using False by (simp only: firstOccurrences_snoc if_False map_append list.map last)
  then show ?thesis
    unfolding step by (simp only: same)
qed

lemma wordFrequencies_tabulated:
  assumes "''constructor'' \<notin> set ws" and "''__proto__'' \<notin> set ws"
  shows "wordFrequencies ws = map (\<lambda>x. (x, Count (count_list ws x))) (firstOccurrences ws)"
  using assms
proof (induction ws rule: rev_induct)
  case Nil
  show ?case by (simp add: wordFrequencies_def firstOccurrences_def)
next
  case (snoc w ws)
  then have ih: "wordFrequencies ws = map (\<lambda>x. (x, Count (count_list ws x))) (firstOccurrences ws)"
    and w: "w \<noteq> ''constructor''" "w \<noteq> ''__proto__''"
    by auto
  have "wordFrequencies (ws @ [w]) = countWord (wordFrequencies ws) w"
    by (simp add: wordFrequencies_def)
  then show ?case
    unfolding ih by (simp only: countWord_tabulated [OF w])
qed

lemma insort_key_map:
  "insort_key f (h x) (map h xs) = map h (insort_key (\<lambda>y. f (h y)) x xs)"
  by (induction xs) auto

lemma sort_key_map:
  "sort_key f (map h xs) = map h (sort_key (\<lambda>y. f (h y)) xs)"
  by (induction xs) (simp_all add: insort_key_map)

lemma Object_entries_tabulated:
  "Object_entries (map (\<lambda>w. (w, g w)) ks) = map (\<lambda>w. (w, g w)) (enumerationOrder ks)"
  by (simp add: Object_entries_def enumerationOrder_def filter_map sort_key_map comp_def)

lemma js_insert_compareFreq:
  "js_insert compareFreq (x, Count (c x)) (map (\<lambda>w. (w, Count (c w))) ys) =
     map (\<lambda>w. (w, Count (c w))) (insort_key (\<lambda>w. - int (c w)) x ys)"
  by (induction ys) auto

lemma js_sort_compareFreq:
  "js_sort compareFreq (map (\<lambda>w. (w, Count (c w))) ks) =
     map (\<lambda>w. (w, Count (c w))) (sort_key (\<lambda>w. - int (c w)) ks)"
proof (induction ks)
  case Nil
  show ?case by (simp add: js_sort_def)
next
  case (Cons k ks)
  have "js_sort compareFreq (map (\<lambda>w. (w, Count (c w))) (k # ks)) =
      js_insert compareFreq (k, Count (c k)) (js_sort compareFreq (map (\<lambda>w. (w, Count (c w))) ks))"
    by (simp add: js_sort_def)
  then show ?case
    by (simp add: Cons.IH js_insert_compareFreq)
qed

lemma extractKeywords_enumerated:
  assumes "''constructor'' \<notin> set (extractWords text)"
    and "''__proto__'' \<notin> set (extractWords text)"
  shows "extractKeywords text = enumeratedKeywords text"
proof -
  let ?ws = "extractWords text"
  let ?h = "\<lambda>w. (w, Count (count_list ?ws w))"
  have "js_sort compareFreq (Object_entries (wordFrequencies ?ws)) =
      map ?h (rankedByCount ?ws (enumerationOrder (firstOccurrences ?ws)))"
    by (simp only: wordFrequencies_tabulated [OF assms] Object_entries_tabulated
        js_sort_compareFreq rankedByCount_def)
  then have "extractKeywords text =
      map fst (take 8 (map ?h (rankedByCount ?ws (enumerationOrder (firstOccurrences ?ws)))))"
    by (simp only: extractKeywords_def)
  also have "\<dots> = take 8 (rankedByCount ?ws (enumerationOrder (firstOccurrences ?ws)))"
    by (simp add: take_map comp_def)
  finally show ?thesis
    by (simp only: enumeratedKeywords_def)
qed

lemma enumerationOrder_no_index:
  "\<forall>k\<in>set ks. \<not> isArrayIndex k \<Longrightarrow> enumerationOrder ks = ks"
  by (simp add: enumerationOrder_def filter_empty_conv[THEN iffD2] filter_id_conv[THEN iffD2])

lemma keywords_generateSimulatedAnalysis:
  "analysisKeywords (generateSimulatedAnalysis text fileName) = map JStr (extractKeywords text)"
  by (simp add: generateSimulatedAnalysis_def Let_def case_prod_beta)

lemma topics_generateSimulatedAnalysis:
  "topics (generateSimulatedAnalysis text fileName) = map JStr (take 3 (extractKeywords text))"
  by (simp add: generateSimulatedAnalysis_def Let_def case_prod_beta)

text \<open>
  Claim C7, amended. For a text none of whose extracted words is \<open>constructor\<close> or
  \<open>__proto__\<close> (they meet inherited properties of the frequency table, which then
  does not count them), the keywords of the simulated analysis are the first eight of
  the distinct extracted words ranked by descending count, ties in the order in which the
  keys of the table are enumerated: words that are array indices (decimal integers below
  \<open>2^32 - 1\<close> without a leading zero) first, in ascending numeric order, then the other
  words by first occurrence. The topics are the first three keywords. When no word is an
  array index this is the ranking of the claim.
\<close>

theorem keywords_enumeration_order:
  assumes "''constructor'' \<notin> set (extractWords text)"
    and "''__proto__'' \<notin> set (extractWords text)"
  shows "analysisKeywords (generateSimulatedAnalysis text fileName) =
           map JStr (enumeratedKeywords text)
       \<and> topics (generateSimulatedAnalysis text fileName) =
           map JStr (take 3 (enumeratedKeywords text))
       \<and> ((\<forall>w\<in>set (extractWords text). \<not> isArrayIndex w) \<longrightarrow>
            enumeratedKeywords text = claimedKeywords text)"
proof -
  have "(\<forall>w\<in>set (extractWords text). \<not> isArrayIndex w) \<longrightarrow>
      enumeratedKeywords text = claimedKeywords text"
    by (simp add: enumeratedKeywords_def claimedKeywords_def enumerationOrder_no_index
        set_firstOccurrences)
  then show ?thesis
    by (simp add: keywords_generateSimulatedAnalysis topics_generateSimulatedAnalysis
        extractKeywords_enumerated [OF assms])
qed

lemma extractWords_alpha_2024: "extractWords ''alpha 2024'' = [''alpha'', ''2024'']"
  by code_simp

lemma extractKeywords_alpha_2024: "extractKeywords ''alpha 2024'' = [''2024'', ''alpha'']"
  by code_simp

lemma claimedKeywords_alpha_2024: "claimedKeywords ''alpha 2024'' = [''alpha'', ''2024'']"
  by code_simp

text \<open>
  Claim C7, as stated, fails: in \<open>alpha 2024\<close> both words occur once and \<open>alpha\<close>
  occurs first, yet the keywords start with \<open>2024\<close>.
\<close>

theorem keywords_integer_token_first:
  "analysisKeywords (generateSimulatedAnalysis ''alpha 2024'' None) =
     [JStr ''2024'', JStr ''alpha'']
   \<and> map JStr (claimedKeywords ''alpha 2024'') = [JStr ''alpha'', JStr ''2024'']"
  by (simp add: keywords_generateSimulatedAnalysis extractKeywords_alpha_2024
      claimedKeywords_alpha_2024)

theorem keywords_enumeration_order_witness:
  "''constructor'' \<notin> set (extractWords ''alpha 2024'')
   \<and> ''__proto__'' \<notin> set (extractWords ''alpha 2024'')
   \<and> analysisKeywords (generateSimulatedAnalysis ''alpha 2024'' None) =
       map JStr (enumeratedKeywords ''alpha 2024'')
   \<and> topics (generateSimulatedAnalysis ''alpha 2024'' None) =
       map JStr (take 3 (enumeratedKeywords ''alpha 2024''))
   \<and> enumeratedKeywords ''beta alpha beta'' = claimedKeywords ''beta alpha beta''"
proof -
  have a: "''constructor'' \<notin> set (extractWords ''alpha 2024'')"
    "''__proto__'' \<notin> set (extractWords ''alpha 2024'')"
    by (simp_all add: extractWords_alpha_2024)
  have w: "extractWords ''beta alpha beta'' = [''beta'', ''alpha'', ''beta'']"
    by code_simp
  have b: "''constructor'' \<notin> set (extractWords ''beta alpha beta'')"
    "''__proto__'' \<notin> set (extractWords ''beta alpha beta'')"
    by (simp_all add: w)
  have n: "\<forall>w\<in>set (extractWords ''beta alpha beta''). \<not> isArrayIndex w"
    unfolding w by (simp add: isArrayIndex_def isDigit_def charCode_def)
  show ?thesis
    using a n keywords_enumeration_order [OF a, of None] keywords_enumeration_order [OF b, of None]
    by blast
qed

section \<open>The division of the cosine similarity\<close>

text \<open>The divisor of the one division is never zero.\<close>

lemma foldl_invariant:
  assumes "P s" and "\<And>s x. x \<in> set xs \<Longrightarrow> P s \<Longrightarrow> P (f s x)"
  shows "P (foldl f s xs)"
  using assms by (induction xs arbitrary: s) auto

lemma normsOk_similaritySums: "normsOk (similaritySums a b)"
proof -
  let ?step = "\<lambda>(dotProduct, normA, normB) i.
      (js_add dotProduct (js_mul (element a i) (element b i)),
       js_add normA (js_mul (element a i) (element a i)),
       js_add normB (js_mul (element b i) (element b i)))"
  have "normsOk (foldl ?step (Num 0, Num 0, Num 0) [0..<length a])"
  proof (rule foldl_invariant)
    show "normsOk (Num 0, Num 0, Num 0)"
      by (simp add: normsOk_def)
  next
    fix s :: "jsnum \<times> jsnum \<times> jsnum" and i
    assume i: "i \<in> set [0..<length a]" and ok: "normsOk s"
    obtain d na nb where s: "s = (d, na, nb)" by (cases s)
    from ok obtain x where na: "na = Num x" "0 \<le> x"
      by (auto simp: normsOk_def s)
    from i have ea: "element a i = Num (a ! i)"
      by (simp add: element_def)
    from ok have "nb = NaN \<or> (\<exists>y. nb = Num y \<and> 0 \<le> y)"
      by (auto simp: normsOk_def s)
    then have "js_add nb (js_mul (element b i) (element b i)) = NaN
        \<or> (\<exists>y. js_add nb (js_mul (element b i) (element b i)) = Num y \<and> 0 \<le> y)"
      by (cases "i < length b") (auto simp: element_def)
    then show "normsOk (?step s i)"
      using na by (simp add: s normsOk_def ea)
  qed
  then show ?thesis
    by (simp only: similaritySums_def)
qed

lemma similarity_divisor_nonzero:
  assumes "similaritySums a b = (dotProduct, normA, normB)"
    and "normA \<noteq> Num 0" and "normB \<noteq> Num 0"
  shows "js_mul (js_sqrt normA) (js_sqrt normB) \<noteq> Num 0"
proof -
  from normsOk_similaritySums [of a b] assms(1)
  obtain x where x: "normA = Num x" "0 \<le> x"
    and nb: "normB = NaN \<or> (\<exists>y. normB = Num y \<and> 0 \<le> y)"
    by (auto simp: normsOk_def)
  from x assms(2) have xp: "0 < x" by auto
  from nb show ?thesis
  proof
    assume "normB = NaN"
    then show ?thesis by (simp add: x)
  next
    assume "\<exists>y. normB = Num y \<and> 0 \<le> y"
    then obtain y where y: "normB = Num y" "0 \<le> y" by blast
    with assms(3) have "0 < y" by auto
    with xp show ?thesis by (simp add: x y)
  qed
qed


text \<open>
  Over the real numbers: when the other vector is shorter than the receiver's, whose
  norm is not zero, the result is \<open>NaN\<close>.
\<close>

lemma similarity_step_normA:
  assumes "\<forall>i\<in>set js. i < length a"
  shows "fst (snd (foldl (\<lambda>(dotProduct, normA, normB) i.
              (js_add dotProduct (js_mul (element a i) (element b i)),
               js_add normA (js_mul (element a i) (element a i)),
               js_add normB (js_mul (element b i) (element b i))))
            (d, Num x, nb) js)) = Num (x + (\<Sum>i\<leftarrow>js. a ! i * a ! i))"
  using assms
proof (induction js arbitrary: d x nb)
  case Nil
  show ?case by simp
next
  case (Cons j js)
  then have "element a j = Num (a ! j)" by (simp add: element_def)
  with Cons show ?case by (simp add: add.assoc)
qed

lemma similarity_step_NaN:
  assumes "(d = NaN \<and> nb = NaN) \<or> (\<exists>i\<in>set js. length b \<le> i)"
  shows "fst (foldl (\<lambda>(dotProduct, normA, normB) i.
              (js_add dotProduct (js_mul (element a i) (element b i)),
               js_add normA (js_mul (element a i) (element a i)),
               js_add normB (js_mul (element b i) (element b i))))
            (d, na, nb) js) = NaN
       \<and> snd (snd (foldl (\<lambda>(dotProduct, normA, normB) i.
              (js_add dotProduct (js_mul (element a i) (element b i)),
               js_add normA (js_mul (element a i) (element a i)),
               js_add normB (js_mul (element b i) (element b i))))
            (d, na, nb) js)) = NaN"
  using assms
proof (induction js arbitrary: d na nb)
  case Nil
  then show ?case by simp
next
  case (Cons j js)
  let ?d = "js_add d (js_mul (element a j) (element b j))"
  let ?nb = "js_add nb (js_mul (element b j) (element b j))"
  have "(?d = NaN \<and> ?nb = NaN) \<or> (\<exists>i\<in>set js. length b \<le> i)"
    using Cons.prems by (auto simp: element_def)
  from Cons.IH [OF this] show ?case by simp
qed

lemma js_mul_NaN_right: "js_mul v NaN = NaN"
  by (cases v) simp_all

lemma calculateSimilarity_shorter_other:
  assumes "embeddings this = Some a" and "embeddings otherDocument = Some b"
    and "length b < length a" and "(\<Sum>x\<leftarrow>a. x * x) \<noteq> 0"
  shows "calculateSimilarity this otherDocument = NaN"
proof -
  obtain d na nb where sums: "similaritySums a b = (d, na, nb)"
    by (cases "similaritySums a b") auto
  have "\<exists>i\<in>set [0..<length a]. length b \<le> i"
    using assms(3) by (intro bexI [of _ "length b"]) simp_all
  then have "(Num 0 = NaN \<and> Num 0 = NaN) \<or> (\<exists>i\<in>set [0..<length a]. length b \<le> i)"
    by blast
  from similarity_step_NaN [OF this, of a "Num 0"] sums
  have d: "d = NaN" and nb: "nb = NaN"
    by (simp_all add: similaritySums_def)
  have "\<forall>i\<in>set [0..<length a]. i < length a" by simp
  from similarity_step_normA [OF this, of b "Num 0" 0 "Num 0"] sums
  have "na = Num (\<Sum>i\<leftarrow>[0..<length a]. a ! i * a ! i)"
    by (simp add: similaritySums_def)
  moreover have "map (\<lambda>i. a ! i * a ! i) [0..<length a] =
      map (\<lambda>x. x * x) (map ((!) a) [0..<length a])"
    by simp
  then have "map (\<lambda>i. a ! i * a ! i) [0..<length a] = map (\<lambda>x. x * x) a"
    by (simp only: map_nth)
  ultimately have na: "na \<noteq> Num 0"
    using assms(4) by simp
  show ?thesis
    using na by (simp add: calculateSimilarity_def assms(1,2) sums d nb js_mul_NaN_right)
qed

section \<open>A test run of the simulated analysis\<close>

lemma scenario_keywords:
  "extractKeywords
     ''This is a great, great, wonderful product that works well. Tested by Acme Corp.'' =
   [''great'', ''wonderful'', ''product'', ''works'', ''well'', ''tested'', ''acme'', ''corp'']"
  by code_simp

lemma scenario_counts:
  "countAll positiveWords (toLowerCase
     ''This is a great, great, wonderful product that works well. Tested by Acme Corp.'') = 3"
  "countAll negativeWords (toLowerCase
     ''This is a great, great, wonderful product that works well. Tested by Acme Corp.'') = 0"
  by code_simp+

lemma scenario_sentiment:
  "simulatedSentiment
     ''This is a great, great, wonderful product that works well. Tested by Acme Corp.'' =
   (3 / 4, ''positive'')"
  by (simp add: simulatedSentiment_def Let_def scenario_counts)

section \<open>The save path\<close>

lemma save_rejects_wrong_dimension:
  assumes "embeddings this = Some e" and "e \<noteq> []" and "length e \<noteq> 1536"
  shows "save docs documentId modifiedPaths this = Inl EmbeddingsDimensionError"
  using assms by (simp add: save_def embeddingsHook_def readingTimeHook_def)


end
